theory Spec2Isabelle
  imports Complex_Main "HOL-Library.Sublist"
begin

section \<open>Python values used by the sound plugin\<close>

text \<open>
  Python floats are IEEE binary64 numbers. The four arithmetic operations round their
  exact result to the nearest representable number, ties to even; \<open>fl\<close> is that
  rounding (overflow and subnormal numbers are left out: no value here comes near them).
  The library functions \<^verbatim>\<open>math.log\<close>, \<^verbatim>\<open>**\<close> and \<^verbatim>\<open>numpy.sin\<close> return floats as well,
  and \<^verbatim>\<open>numpy.pi\<close> is one. They are modelled as correctly rounded: the exact real
  value, rounded by \<open>fl\<close>. The C library does not promise that for every argument, so
  what is proved about them holds up to the last bit of the library's result.
\<close>

definition round_even :: "real \<Rightarrow> int" where
  "round_even x =
     (let f = \<lfloor>x\<rfloor>; d = x - of_int f
      in if d < 1 / 2 then f else if 1 / 2 < d then f + 1 else if even f then f else f + 1)"

definition fl :: "real \<Rightarrow> real" where
  "fl x = (if x = 0 then 0
           else let e = \<lfloor>log 2 \<bar>x\<bar>\<rfloor> - 52
                in of_int (round_even (x / 2 powr (of_int e))) * 2 powr (of_int e))"

datatype exn =
    RuntimeError
  | ValueError
  | ZeroDivisionError
  | IndexError
  | AssertionError
  | CallbackAbort
  | QueueFull
  | QueueEmpty
  | PortAudioError
  | OSError

text \<open>\<^verbatim>\<open>int(x)\<close> on a float drops the fractional part (rounds towards zero).\<close>

definition py_int :: "real \<Rightarrow> int" where
  "py_int x = (if 0 \<le> x then \<lfloor>x\<rfloor> else \<lceil>x\<rceil>)"

text \<open>Truthiness: \<^verbatim>\<open>None\<close>, zero and the empty string are false.\<close>

fun truthy_int :: "int option \<Rightarrow> bool" where
  "truthy_int None = False"
| "truthy_int (Some n) = (n \<noteq> 0)"

fun truthy_real :: "real option \<Rightarrow> bool" where
  "truthy_real None = False"
| "truthy_real (Some x) = (x \<noteq> 0)"

fun truthy_str :: "string option \<Rightarrow> bool" where
  "truthy_str None = False"
| "truthy_str (Some s) = (s \<noteq> [])"

section \<open>The class \<^verbatim>\<open>Sound\<close>\<close>

record Sound =
  midi_note :: int
  frequency :: real
  gain :: real
  duration :: "real option"

definition STANDARD_A_FREQUENCY :: real where
  "STANDARD_A_FREQUENCY = 440"

definition STANDARD_A_MIDI_NOTE :: int where
  "STANDARD_A_MIDI_NOTE = 69"

definition DEFAULT_BLOCKSIZE :: int where
  "DEFAULT_BLOCKSIZE = 2048"

definition DEFAULT_BUFSIZE :: int where
  "DEFAULT_BUFSIZE = 20"

definition DEFAULT_SAMPLERATE :: int where
  "DEFAULT_SAMPLERATE = 44100"

text \<open>
  \<^verbatim>\<open>(midi_note - 69) / 12.0\<close> is one float, \<^verbatim>\<open>2.0 ** \<close> of it is a second one, and the
  product with \<^verbatim>\<open>A_frequency\<close> a third.
\<close>

definition note_to_freq :: "int \<Rightarrow> real \<Rightarrow> real" where
  "note_to_freq note A_frequency =
     fl (fl (2 powr (fl (real_of_int (note - STANDARD_A_MIDI_NOTE) / 12))) * A_frequency)"

text \<open>
  \<^verbatim>\<open>math.log(x, base)\<close> is computed as the quotient of two natural logarithms, each a
  float, and raises on an argument that is not positive (the caller below tests that).
\<close>

definition math_log :: "real \<Rightarrow> real \<Rightarrow> real" where
  "math_log x base = fl (fl (ln x) / fl (ln base))"

text \<open>\<^verbatim>\<open>frequency/A_frequency\<close> raises on a zero divisor.\<close>

definition freq_to_note :: "real \<Rightarrow> real \<Rightarrow> exn + int" where
  "freq_to_note freq A_frequency =
     (if A_frequency = 0 then Inl ZeroDivisionError
      else if fl (freq / A_frequency) \<le> 0 then Inl ValueError
      else Inr (py_int (fl (fl (12 * math_log (fl (freq / A_frequency)) 2)
                            + real_of_int STANDARD_A_MIDI_NOTE))))"

definition Sound_init ::
  "int option \<Rightarrow> real option \<Rightarrow> real \<Rightarrow> real option \<Rightarrow> real \<Rightarrow> exn + Sound" where
  "Sound_init note freq g dur A_frequency =
     (if truthy_int note \<and> truthy_real freq then Inl RuntimeError
      else if truthy_int note then
        Inr \<lparr> midi_note = the note, frequency = note_to_freq (the note) A_frequency,
              gain = g, duration = dur \<rparr>
      else if truthy_real freq then
        (case freq_to_note (the freq) A_frequency of
           Inl e \<Rightarrow> Inl e
         | Inr n \<Rightarrow> Inr \<lparr> midi_note = n, frequency = the freq, gain = g, duration = dur \<rparr>)
      else Inl RuntimeError)"

text \<open>
  \<^verbatim>\<open>numpy.linspace(start, stop, num)\<close> with its default \<^verbatim>\<open>endpoint=True\<close>: an error
  when \<open>num\<close> is negative; otherwise \<open>num\<close> values \<open>start + i * step\<close> with
  \<open>step = (stop - start) / (num - 1)\<close>, the last one set to \<open>stop\<close> itself; the single
  value \<open>start\<close> when \<open>num = 1\<close>.
\<close>

definition linspace :: "real \<Rightarrow> real \<Rightarrow> int \<Rightarrow> exn + real list" where
  "linspace start stop num =
     (if num < 0 then Inl ValueError
      else Inr (map (\<lambda>i. if 1 < num \<and> int i = num - 1 then stop
                          else if 1 < num
                            then fl (fl (real i * fl (fl (stop - start) / real_of_int (num - 1)))
                                     + start)
                          else fl (fl (real i * fl (stop - start)) + start))
                    [0..<nat num]))"

text \<open>
  One sample of the wave at time \<open>t\<close>: \<^verbatim>\<open>gain * sin(2 * pi * frequency * t)\<close>, the
  products taken from left to right.
\<close>

definition wave_at :: "Sound \<Rightarrow> real \<Rightarrow> real" where
  "wave_at s t = fl (gain s * fl (sin (fl (fl (fl (2 * fl pi) * frequency s) * t))))"

text \<open>
  The wave is a column of samples; the model keeps the samples as a list. The sample
  rate is the integer the callers pass.
\<close>

definition get_wave :: "Sound \<Rightarrow> real \<Rightarrow> real \<Rightarrow> int \<Rightarrow> exn + real list" where
  "get_wave s t_start t_end samplerate =
     (case linspace t_start t_end
             (py_int (fl (fl (t_end - t_start) * real_of_int samplerate))) of
        Inl e \<Rightarrow> Inl e
      | Inr x \<Rightarrow> Inr (map (wave_at s) x))"

text \<open>The sound \<^verbatim>\<open>Sound(midi_note=69, duration=1.0)\<close>: one second of A4.\<close>

definition A4 :: Sound where
  "A4 = \<lparr> midi_note = 69, frequency = 440, gain = 1, duration = Some 1 \<rparr>"

section \<open>The plugin, its surroundings and the other threads\<close>

datatype PlaybackState = STOPPED | PLAYING | PAUSED

datatype RecordingState = REC_STOPPED | RECORDING | REC_PAUSED

datatype device = DeviceIndex int | DeviceName string

type_synonym block = "real list"

text \<open>
  What a call does to the world outside the plugin object is kept as a list of events,
  oldest first: log lines, sleeps, calls of \<^verbatim>\<open>get_wave\<close>, blocks put on the playback
  queue, and what happens to files.
\<close>

datatype event =
    Info string
  | Warning string
  | Slept real
  | Synth real real int
  | Enqueued block
  | Unlinked string
  | Written string block
  | Flushed string

datatype node = RegularFile block | Directory

record SoundPlugin =
  input_device :: "device option"
  output_device :: "device option"
  input_blocksize :: int
  output_blocksize :: int
  playback_bufsize :: int
  playback_state :: PlaybackState
  playback_paused_changed :: bool
  recording_state :: RecordingState
  recording_paused_changed :: bool

text \<open>
  The plugin object together with its surroundings: the events so far, the sound files
  and device streams that are open, the file system, and a counter of the points at which
  the running call has looked at what other threads did.
\<close>

record world = SoundPlugin +
  events :: "event list"
  open_files :: "string list"
  open_streams :: nat
  filesystem :: "string \<rightharpoonup> node"
  clock :: nat

definition SoundPlugin_init ::
  "device option \<Rightarrow> device option \<Rightarrow> int \<Rightarrow> int \<Rightarrow> int \<Rightarrow> (string \<rightharpoonup> node) \<Rightarrow> world" where
  "SoundPlugin_init input_dev output_dev input_bs output_bs bufsize fs =
     \<lparr> input_device = input_dev, output_device = output_dev,
       input_blocksize = input_bs, output_blocksize = output_bs,
       playback_bufsize = bufsize,
       playback_state = STOPPED, playback_paused_changed = False,
       recording_state = REC_STOPPED, recording_paused_changed = False,
       events = [], open_files = [], open_streams = 0, filesystem = fs, clock = 0 \<rparr>"

definition emit :: "event \<Rightarrow> world \<Rightarrow> world" where
  "emit e w = w\<lparr> events := events w @ [e] \<rparr>"

definition start_playback :: "world \<Rightarrow> world" where
  "start_playback w = w\<lparr> playback_state := PLAYING \<rparr>"

definition stop_playback :: "world \<Rightarrow> world" where
  "stop_playback w = emit (Info ''Playback stopped'') (w\<lparr> playback_state := STOPPED \<rparr>)"

definition pause_playback :: "world \<Rightarrow> world" where
  "pause_playback w =
     (if playback_state w = PAUSED then
        (emit (Info ''Playback paused state toggled'') (w\<lparr> playback_state := PLAYING \<rparr>))
          \<lparr> playback_paused_changed := True \<rparr>
      else if playback_state w = PLAYING then
        (emit (Info ''Playback paused state toggled'') (w\<lparr> playback_state := PAUSED \<rparr>))
          \<lparr> playback_paused_changed := True \<rparr>
      else w)"

definition start_recording :: "world \<Rightarrow> world" where
  "start_recording w = w\<lparr> recording_state := RECORDING \<rparr>"

definition stop_recording :: "world \<Rightarrow> world" where
  "stop_recording w = emit (Info ''Recording stopped'') (w\<lparr> recording_state := REC_STOPPED \<rparr>)"

definition pause_recording :: "world \<Rightarrow> world" where
  "pause_recording w =
     (if recording_state w = REC_PAUSED then
        (emit (Info ''Recording paused state toggled'') (w\<lparr> recording_state := RECORDING \<rparr>))
          \<lparr> recording_paused_changed := True \<rparr>
      else if recording_state w = RECORDING then
        (emit (Info ''Recording paused state toggled'') (w\<lparr> recording_state := REC_PAUSED \<rparr>))
          \<lparr> recording_paused_changed := True \<rparr>
      else w)"

definition get_state :: "world \<Rightarrow> PlaybackState \<times> RecordingState" where
  "get_state w = (playback_state w, recording_state w)"

text \<open>
  Other threads reach the two state machines through the methods above and nothing else.
  Everything the running call cannot decide by itself is an oracle of the environment:
  what other threads call between two looks at the state, what the audio library and the
  operating system answer, how many blocks the audio callback took from the queue, what
  the capture callback delivered, and the wall clock.
\<close>

datatype call =
    CallStartPlayback | CallStopPlayback | CallPausePlayback
  | CallStartRecording | CallStopRecording | CallPauseRecording

fun do_call :: "world \<Rightarrow> call \<Rightarrow> world" where
  "do_call w CallStartPlayback = start_playback w"
| "do_call w CallStopPlayback = stop_playback w"
| "do_call w CallPausePlayback = pause_playback w"
| "do_call w CallStartRecording = start_recording w"
| "do_call w CallStopRecording = stop_recording w"
| "do_call w CallPauseRecording = pause_recording w"

record soundfile =
  sf_samplerate :: int
  sf_channels :: int
  sf_frames :: "real list"

datatype stream_kind = RawOutputStream | OutputStream | InputStream | DuplexStream

record sound_kwargs =
  kw_midi_note :: "int option"
  kw_frequency :: "real option"
  kw_gain :: "real option"
  kw_duration :: "real option"
  kw_A_frequency :: "real option"

datatype sound_item = SoundObject Sound | SoundDict sound_kwargs

datatype sounds_arg = SoundList "sound_item list" | SoundJson string

record env =
  other_threads :: "nat \<Rightarrow> call list"
  abspath :: "string \<Rightarrow> string"
  mktemp :: string
  default_device :: "string \<Rightarrow> exn + device option"
  default_samplerate :: "device option \<Rightarrow> exn + real"
  json_loads :: "string \<Rightarrow> exn + sound_item list"
  SoundFile_open :: "string \<Rightarrow> exn + soundfile"
  open_stream :: "stream_kind \<Rightarrow> int \<Rightarrow> int \<Rightarrow> int \<Rightarrow> exn option"
  drained :: "nat \<Rightarrow> nat"
  stream_finishes :: bool
  captured :: "nat \<Rightarrow> block option"
  now :: "nat \<Rightarrow> real"

text \<open>A look at the shared state: other threads have run since the last one.\<close>

definition observe :: "env \<Rightarrow> world \<Rightarrow> world" where
  "observe en w = (foldl do_call w (other_threads en (clock w)))\<lparr> clock := Suc (clock w) \<rparr>"

definition time_now :: "env \<Rightarrow> world \<Rightarrow> real \<times> world" where
  "time_now en w = (now en (clock w), w\<lparr> clock := Suc (clock w) \<rparr>)"

text \<open>
  \<^verbatim>\<open>Event.wait()\<close> returns at once when the event is set and otherwise blocks until
  another thread sets it. The loops \<^verbatim>\<open>while state == PAUSED: event.wait()\<close> may
  never end: the first argument after the environment bounds the number of looks, and
  \<open>None\<close> means that the thread is still blocked when the bound is reached.
\<close>

fun wait_playback_paused_changed :: "env \<Rightarrow> nat \<Rightarrow> world \<Rightarrow> world option" where
  "wait_playback_paused_changed en 0 w = (if playback_paused_changed w then Some w else None)"
| "wait_playback_paused_changed en (Suc n) w =
     (if playback_paused_changed w then Some w
      else wait_playback_paused_changed en n (observe en w))"

fun wait_while_playback_paused :: "env \<Rightarrow> nat \<Rightarrow> world \<Rightarrow> world option" where
  "wait_while_playback_paused en 0 w = None"
| "wait_while_playback_paused en (Suc n) w =
     (let w1 = observe en w
      in if playback_state w1 = PAUSED then
           (case wait_playback_paused_changed en n w1 of
              None \<Rightarrow> None
            | Some w2 \<Rightarrow> wait_while_playback_paused en n w2)
         else Some w1)"

fun wait_recording_paused_changed :: "env \<Rightarrow> nat \<Rightarrow> world \<Rightarrow> world option" where
  "wait_recording_paused_changed en 0 w = (if recording_paused_changed w then Some w else None)"
| "wait_recording_paused_changed en (Suc n) w =
     (if recording_paused_changed w then Some w
      else wait_recording_paused_changed en n (observe en w))"

fun wait_while_recording_paused :: "env \<Rightarrow> nat \<Rightarrow> world \<Rightarrow> world option" where
  "wait_while_recording_paused en 0 w = None"
| "wait_while_recording_paused en (Suc n) w =
     (let w1 = observe en w
      in if recording_state w1 = REC_PAUSED then
           (case wait_recording_paused_changed en n w1 of
              None \<Rightarrow> None
            | Some w2 \<Rightarrow> wait_while_recording_paused en n w2)
         else Some w1)"

text \<open>
  The device of a call: the argument, else the configured device, else the default of
  the audio library, which may fail. The sample rate of a recording: the argument, else
  \<^verbatim>\<open>int\<close> of the default rate of the device, which the library may fail to give.
\<close>

definition resolve_device :: "env \<Rightarrow> string \<Rightarrow> device option \<Rightarrow> device option \<Rightarrow> exn + device option" where
  "resolve_device en category given configured =
     (case given of
        Some d \<Rightarrow> Inr (Some d)
      | None \<Rightarrow> (case configured of
                   Some d \<Rightarrow> Inr (Some d)
                 | None \<Rightarrow> default_device en category))"

definition resolve_samplerate :: "env \<Rightarrow> int option \<Rightarrow> device option \<Rightarrow> exn + int" where
  "resolve_samplerate en sample_rate dev =
     (case sample_rate of
        Some sr \<Rightarrow> Inr sr
      | None \<Rightarrow> (case default_samplerate en dev of
                   Inl e \<Rightarrow> Inl e
                 | Inr x \<Rightarrow> Inr (py_int x)))"

section \<open>Playback\<close>

text \<open>
  The playback queue is \<^verbatim>\<open>queue.Queue(maxsize=bufsize)\<close>: a list of blocks, oldest first,
  that is full when it holds \<open>maxsize\<close> blocks; a \<open>maxsize\<close> of zero or less never fills.
\<close>

definition full :: "int \<Rightarrow> block list \<Rightarrow> bool" where
  "full maxsize q = (0 < maxsize \<and> maxsize \<le> int (length q))"




text \<open>
  The argument \<^verbatim>\<open>sounds\<close> is a list of \<^verbatim>\<open>Sound\<close> objects and dictionaries, or its JSON
  text. A dictionary becomes \<^verbatim>\<open>Sound(**d)\<close> with the defaults of the constructor.
\<close>

fun truthy_sounds :: "sounds_arg option \<Rightarrow> bool" where
  "truthy_sounds None = False"
| "truthy_sounds (Some (SoundList xs)) = (xs \<noteq> [])"
| "truthy_sounds (Some (SoundJson s)) = (s \<noteq> [])"

definition Sound_of_dict :: "sound_kwargs \<Rightarrow> exn + Sound" where
  "Sound_of_dict d =
     Sound_init (kw_midi_note d) (kw_frequency d)
       (case kw_gain d of None \<Rightarrow> 1 | Some g \<Rightarrow> g)
       (kw_duration d)
       (case kw_A_frequency d of None \<Rightarrow> STANDARD_A_FREQUENCY | Some a \<Rightarrow> a)"

fun convert_items :: "sound_item list \<Rightarrow> exn + Sound list" where
  "convert_items [] = Inr []"
| "convert_items (SoundObject s # xs) =
     (case convert_items xs of Inl e \<Rightarrow> Inl e | Inr ss \<Rightarrow> Inr (s # ss))"
| "convert_items (SoundDict d # xs) =
     (case Sound_of_dict d of
        Inl e \<Rightarrow> Inl e
      | Inr s \<Rightarrow> (case convert_items xs of Inl e \<Rightarrow> Inl e | Inr ss \<Rightarrow> Inr (s # ss)))"

definition convert_sounds :: "env \<Rightarrow> sounds_arg option \<Rightarrow> exn + Sound list" where
  "convert_sounds en sounds =
     (if truthy_sounds sounds then
        (case the sounds of
           SoundJson s \<Rightarrow>
             (case json_loads en s of Inl e \<Rightarrow> Inl e | Inr xs \<Rightarrow> convert_items xs)
         | SoundList xs \<Rightarrow> convert_items xs)
      else Inr [])"

text \<open>
  \<^verbatim>\<open>f.buffer_read(blocksize)\<close> takes the next \<open>blocksize\<close> frames, fewer at the end of the
  file, and all that is left when \<open>blocksize\<close> is negative.
\<close>

definition buffer_read :: "soundfile \<Rightarrow> int \<Rightarrow> block \<times> soundfile" where
  "buffer_read f n =
     (let k = (if n < 0 then length (sf_frames f) else nat n)
      in (take k (sf_frames f), f\<lparr> sf_frames := drop k (sf_frames f) \<rparr>))"

text \<open>
  The body shared by the pre-fill loop and the producer loop: read the next block from
  the file, or synthesize it from the first sound and move the cursor \<open>t\<close>. The block is
  \<open>None\<close> where the source says \<^verbatim>\<open>break\<close>.
\<close>

definition next_block ::
  "soundfile option \<Rightarrow> Sound list \<Rightarrow> int \<Rightarrow> int \<Rightarrow> real \<Rightarrow> world
   \<Rightarrow> (exn + (block option \<times> soundfile option \<times> real)) \<times> world" where
  "next_block f sounds blocksize samplerate t w =
     (case f of
        Some h \<Rightarrow>
          (let (data, h') = buffer_read h blocksize
           in (Inr (if data = [] then None else Some data, Some h', t), w))
      | None \<Rightarrow>
          (case sounds of
             [] \<Rightarrow> (Inl IndexError, w)
           | sound # _ \<Rightarrow>
               if samplerate = 0 then (Inl ZeroDivisionError, w)
               else
                 (let blocktime = fl (real_of_int blocksize / real_of_int samplerate);
                      next_t = (case duration sound of
                                  Some d \<Rightarrow> min (fl (t + blocktime)) d
                                | None \<Rightarrow> fl (t + blocktime));
                      w1 = emit (Synth t next_t samplerate) w
                  in (case get_wave sound t next_t samplerate of
                        Inl e \<Rightarrow> (Inl e, w1)
                      | Inr data \<Rightarrow>
                          (Inr (if (case duration sound of Some d \<Rightarrow> d \<le> next_t | None \<Rightarrow> False)
                                then None else Some data, None, next_t), w1)))))"

text \<open>The pre-fill loop \<^verbatim>\<open>for _ in range(bufsize)\<close>; the second number counts its rounds.\<close>

fun prefill ::
  "env \<Rightarrow> nat \<Rightarrow> nat \<Rightarrow> Sound list \<Rightarrow> int \<Rightarrow> int \<Rightarrow> int
   \<Rightarrow> soundfile option \<Rightarrow> real \<Rightarrow> block list \<Rightarrow> world
   \<Rightarrow> ((exn + (soundfile option \<times> real \<times> block list)) \<times> world) option" where
  "prefill en fuel 0 sounds blocksize samplerate maxsize f t q w = Some (Inr (f, t, q), w)"
| "prefill en fuel (Suc k) sounds blocksize samplerate maxsize f t q w =
     (case next_block f sounds blocksize samplerate t w of
        (Inl e, w1) \<Rightarrow> Some (Inl e, w1)
      | (Inr (None, f', t'), w1) \<Rightarrow> Some (Inr (f', t', q), w1)
      | (Inr (Some data, f', t'), w1) \<Rightarrow>
          (case wait_while_playback_paused en fuel w1 of
             None \<Rightarrow> None
           | Some w2 \<Rightarrow>
               (let w3 = observe en w2
                in if playback_state w3 = STOPPED then Some (Inl CallbackAbort, w3)
                   else if full maxsize q then Some (Inl QueueFull, w3)
                   else prefill en fuel k sounds blocksize samplerate maxsize f' t'
                          (q @ [data]) (emit (Enqueued data) w3))))"

text \<open>
  The producer loop \<^verbatim>\<open>while True\<close>. Before each \<^verbatim>\<open>q.put(data, timeout)\<close> the audio
  callback has taken \<open>drained\<close> blocks from the queue; when the queue is still full the
  put times out. A timeout while the state is \<open>PAUSED\<close> is swallowed and the block is
  dropped.
\<close>

fun producer ::
  "env \<Rightarrow> nat \<Rightarrow> Sound list \<Rightarrow> int \<Rightarrow> int \<Rightarrow> int
   \<Rightarrow> soundfile option \<Rightarrow> real \<Rightarrow> block list \<Rightarrow> world
   \<Rightarrow> ((exn + (soundfile option \<times> real \<times> block list)) \<times> world) option" where
  "producer en 0 sounds blocksize samplerate maxsize f t q w = None"
| "producer en (Suc n) sounds blocksize samplerate maxsize f t q w =
     (case wait_while_playback_paused en (Suc n) w of
        None \<Rightarrow> None
      | Some w1 \<Rightarrow>
          (case next_block f sounds blocksize samplerate t w1 of
             (Inl e, w2) \<Rightarrow> Some (Inl e, w2)
           | (Inr (None, f', t'), w2) \<Rightarrow> Some (Inr (f', t', q), w2)
           | (Inr (Some data, f', t'), w2) \<Rightarrow>
               (let w3 = observe en w2
                in if playback_state w3 = STOPPED then Some (Inl CallbackAbort, w3)
                   else
                     (let q1 = drop (drained en (clock w3)) q
                      in if full maxsize q1 then
                           (let w4 = observe en w3
                            in if playback_state w4 \<noteq> PAUSED then Some (Inl QueueFull, w4)
                               else producer en n sounds blocksize samplerate maxsize f' t' q1 w4)
                         else producer en n sounds blocksize samplerate maxsize f' t'
                                (q1 @ [data]) (emit (Enqueued data) w3)))))"

text \<open>
  The body of the \<^verbatim>\<open>try\<close> block of \<^verbatim>\<open>play\<close> once the sound file, if any, is open. The
  stream is given the sample rate, the block size and the channel count; the device goes
  to the audio library unchanged. Leaving the \<^verbatim>\<open>with stream\<close> block closes the stream.
  \<^verbatim>\<open>completed_callback_event.wait()\<close> returns when the stream finishes.
\<close>

definition play_session ::
  "env \<Rightarrow> nat \<Rightarrow> string option \<Rightarrow> soundfile option \<Rightarrow> sounds_arg option \<Rightarrow> int \<Rightarrow> int
   \<Rightarrow> int option \<Rightarrow> int option \<Rightarrow> world \<Rightarrow> ((exn + unit) \<times> world) option" where
  "play_session en fuel file f sounds blocksize bufsize samplerate channels w =
     (let samplerate' = (if truthy_int samplerate then the samplerate
                         else (case f of Some h \<Rightarrow> sf_samplerate h | None \<Rightarrow> DEFAULT_SAMPLERATE));
          channels' = (if truthy_int channels then the channels
                       else (case f of Some h \<Rightarrow> sf_channels h | None \<Rightarrow> 1));
          w1 = emit (Info ''Started playback'') (start_playback w)
      in case convert_sounds en sounds of
           Inl e \<Rightarrow> Some (Inl e, w1)
         | Inr snds \<Rightarrow>
             (case prefill en fuel (nat bufsize) snds blocksize samplerate' bufsize f 0 [] w1 of
                None \<Rightarrow> None
              | Some (Inl e, w2) \<Rightarrow> Some (Inl e, w2)
              | Some (Inr (f', t', q'), w2) \<Rightarrow>
                  (case open_stream en (if truthy_str file then RawOutputStream else OutputStream)
                          samplerate' blocksize channels' of
                     Some e \<Rightarrow> Some (Inl e, w2)
                   | None \<Rightarrow>
                       (case producer en fuel snds blocksize samplerate' bufsize f' t' q'
                               (w2\<lparr> open_streams := Suc (open_streams w2) \<rparr>) of
                          None \<Rightarrow> None
                        | Some (Inl e, w4) \<Rightarrow>
                            Some (Inl e, w4\<lparr> open_streams := open_streams w4 - 1 \<rparr>)
                        | Some (Inr _, w4) \<Rightarrow>
                            if stream_finishes en
                            then Some (Inr (), w4\<lparr> open_streams := open_streams w4 - 1 \<rparr>)
                            else None))))"

text \<open>
  The \<^verbatim>\<open>except queue.Full\<close> and \<^verbatim>\<open>finally\<close> clauses of \<^verbatim>\<open>play\<close>; \<open>opened\<close> is the path
  of the sound file when it was opened.
\<close>

definition play_finally :: "exn + unit \<Rightarrow> string option \<Rightarrow> world \<Rightarrow> (exn + unit) \<times> world" where
  "play_finally r opened w =
     (let w1 = (if r = Inl QueueFull
                then emit (Warning ''Playback timeout: audio callback failed?'') w else w);
          r' = (if r = Inl QueueFull then Inr () else r);
          w2 = (case opened of
                  Some p \<Rightarrow> w1\<lparr> open_files := remove1 p (open_files w1) \<rparr>
                | None \<Rightarrow> w1)
      in (r', stop_playback w2))"

text \<open>Lines 311 to 315: a running session is stopped only when a file is to be played.\<close>

definition play_prelude :: "string option \<Rightarrow> world \<Rightarrow> world" where
  "play_prelude file w =
     (if playback_state w \<noteq> STOPPED then
        (if truthy_str file then
           emit (Slept 2) (stop_playback (emit (Info ''Stopping playback before playing'') w))
         else w)
      else w)"

text \<open>
  \<^verbatim>\<open>play\<close> after the check of its arguments, up to the \<^verbatim>\<open>try\<close> block: the new block
  size, the cleared event and the absolute path.
\<close>

definition play_try ::
  "env \<Rightarrow> nat \<Rightarrow> string option \<Rightarrow> sounds_arg option \<Rightarrow> int \<Rightarrow> int
   \<Rightarrow> int option \<Rightarrow> int option \<Rightarrow> world \<Rightarrow> ((exn + unit) \<times> string option \<times> world) option" where
  "play_try en fuel file sounds blocksize bufsize samplerate channels w =
     (if truthy_str file then
        (case SoundFile_open en (the file) of
           Inl e \<Rightarrow> Some (Inl e, None, w)
         | Inr h \<Rightarrow>
             (case play_session en fuel file (Some h) sounds blocksize bufsize samplerate channels
                     (w\<lparr> open_files := the file # open_files w \<rparr>) of
                None \<Rightarrow> None
              | Some (r, w') \<Rightarrow> Some (r, file, w')))
      else
        (case play_session en fuel file None sounds blocksize bufsize samplerate channels w of
           None \<Rightarrow> None
         | Some (r, w') \<Rightarrow> Some (r, None, w')))"

definition play_checked ::
  "env \<Rightarrow> nat \<Rightarrow> string option \<Rightarrow> sounds_arg option \<Rightarrow> device option \<Rightarrow> int option \<Rightarrow> int
   \<Rightarrow> int option \<Rightarrow> int option \<Rightarrow> world \<Rightarrow> ((exn + unit) \<times> world) option" where
  "play_checked en fuel file sounds dev blocksize bufsize samplerate channels w =
     (let w1 = play_prelude file w;
          blocksize' = (case blocksize of None \<Rightarrow> output_blocksize w1 | Some b \<Rightarrow> b);
          w2 = w1\<lparr> playback_paused_changed := False \<rparr>;
          file' = (if truthy_str file then Some (abspath en (the file)) else file)
      in case resolve_device en ''output'' dev (output_device w2) of
           Inl e \<Rightarrow> Some (Inl e, w2)
         | Inr _ \<Rightarrow>
             (case play_try en fuel file' sounds blocksize' bufsize samplerate channels w2 of
                None \<Rightarrow> None
              | Some (r, opened, w3) \<Rightarrow> Some (play_finally r opened w3)))"

definition play ::
  "env \<Rightarrow> nat \<Rightarrow> string option \<Rightarrow> sounds_arg option \<Rightarrow> device option \<Rightarrow> int option \<Rightarrow> int
   \<Rightarrow> int option \<Rightarrow> int option \<Rightarrow> world \<Rightarrow> ((exn + unit) \<times> world) option" where
  "play en fuel file sounds dev blocksize bufsize samplerate channels w =
     (if \<not> truthy_str file \<and> \<not> truthy_sounds sounds then Some (Inl RuntimeError, w)
      else play_checked en fuel file sounds dev blocksize bufsize samplerate channels w)"

section \<open>Recording and pass-through\<close>

definition isfile :: "world \<Rightarrow> string \<Rightarrow> bool" where
  "isfile w path = (case filesystem w path of Some (RegularFile _) \<Rightarrow> True | _ \<Rightarrow> False)"

definition unlink :: "string \<Rightarrow> world \<Rightarrow> world" where
  "unlink path w = emit (Unlinked path) (w\<lparr> filesystem := (filesystem w)(path := None) \<rparr>)"

text \<open>
  \<^verbatim>\<open>SoundFile(file, mode='x')\<close> creates the file and fails when the path exists.
\<close>

definition SoundFile_create :: "string \<Rightarrow> world \<Rightarrow> exn + world" where
  "SoundFile_create path w =
     (if filesystem w path \<noteq> None then Inl OSError
      else Inr (w\<lparr> filesystem := (filesystem w)(path \<mapsto> RegularFile []),
                    open_files := path # open_files w \<rparr>))"

definition SoundFile_write :: "string \<Rightarrow> block \<Rightarrow> world \<Rightarrow> world" where
  "SoundFile_write path data w =
     emit (Written path data)
       (w\<lparr> filesystem := (filesystem w)
              (path \<mapsto> RegularFile ((case filesystem w path of
                                        Some (RegularFile c) \<Rightarrow> c
                                      | _ \<Rightarrow> []) @ data)) \<rparr>)"

definition SoundFile_close :: "string \<Rightarrow> world \<Rightarrow> world" where
  "SoundFile_close path w = w\<lparr> open_files := remove1 path (open_files w) \<rparr>"

definition stream_close :: "world \<Rightarrow> world" where
  "stream_close w = w\<lparr> open_streams := open_streams w - 1 \<rparr>"

text \<open>
  The test \<^verbatim>\<open>duration is None or time.time() - recording_started_time < duration\<close>.
\<close>

definition time_left :: "env \<Rightarrow> real option \<Rightarrow> real \<Rightarrow> world \<Rightarrow> bool \<times> world" where
  "time_left en dur t0 w =
     (case dur of
        None \<Rightarrow> (True, w)
      | Some d \<Rightarrow> (let (tm, w') = time_now en w in (fl (tm - t0) < d, w')))"

text \<open>
  The loop of \<^verbatim>\<open>record\<close>. With a duration, \<^verbatim>\<open>q.get\<close> waits for the time that is left
  and raises \<^verbatim>\<open>queue.Empty\<close> when nothing came; without one it waits for ever.
\<close>

fun record_loop ::
  "env \<Rightarrow> nat \<Rightarrow> string \<Rightarrow> real option \<Rightarrow> real \<Rightarrow> world \<Rightarrow> ((exn + unit) \<times> world) option" where
  "record_loop en 0 path dur t0 w = None"
| "record_loop en (Suc n) path dur t0 w =
     (let w1 = observe en w
      in if recording_state w1 = REC_STOPPED then Some (Inr (), w1)
         else
           (let (go, w2) = time_left en dur t0 w1
            in if \<not> go then Some (Inr (), w2)
               else
                 (case wait_while_recording_paused en (Suc n) w2 of
                    None \<Rightarrow> None
                  | Some w3 \<Rightarrow>
                      (let w4 = (case dur of None \<Rightarrow> w3 | Some d \<Rightarrow> snd (time_now en w3))
                       in case captured en (clock w4) of
                            None \<Rightarrow> (if dur = None then None else Some (Inl QueueEmpty, w4))
                          | Some data \<Rightarrow>
                              record_loop en n path dur t0 (SoundFile_write path data w4)))))"

text \<open>The \<^verbatim>\<open>except queue.Empty\<close> and \<^verbatim>\<open>finally\<close> clauses of \<^verbatim>\<open>record\<close>.\<close>

definition record_finally :: "exn + unit \<Rightarrow> world \<Rightarrow> (exn + unit) \<times> world" where
  "record_finally r w =
     (let w1 = (if r = Inl QueueEmpty
                then emit (Warning ''Recording timeout: audio callback failed?'') w else w);
          r' = (if r = Inl QueueEmpty then Inr () else r)
      in (r', stop_recording w1))"

text \<open>Lines 506 to 510 and 518 to 520 of \<^verbatim>\<open>record\<close>.\<close>

definition record_prelude :: "world \<Rightarrow> world" where
  "record_prelude w =
     (if recording_state w \<noteq> REC_STOPPED then emit (Slept 2) (stop_recording w) else w)
       \<lparr> recording_paused_changed := False \<rparr>"

definition remove_existing :: "string \<Rightarrow> world \<Rightarrow> world" where
  "remove_existing path w =
     (if isfile w path then unlink path (emit (Info ''Removing existing audio file'') w)
      else w)"

text \<open>
  The \<^verbatim>\<open>try\<close> block of \<^verbatim>\<open>record\<close>: the two \<^verbatim>\<open>with\<close> blocks close the stream and the
  file on every way out; the file is flushed when the loop ends without an exception.
\<close>

definition record_try ::
  "env \<Rightarrow> nat \<Rightarrow> string \<Rightarrow> real option \<Rightarrow> int \<Rightarrow> int \<Rightarrow> int \<Rightarrow> world
   \<Rightarrow> ((exn + unit) \<times> world) option" where
  "record_try en fuel path dur sample_rate blocksize channels w =
     (case SoundFile_create path w of
        Inl e \<Rightarrow> Some (Inl e, w)
      | Inr w1 \<Rightarrow>
          (case open_stream en InputStream sample_rate blocksize channels of
             Some e \<Rightarrow> Some (Inl e, SoundFile_close path w1)
           | None \<Rightarrow>
               (let w2 = emit (Info ''Started recording'')
                           (start_recording (w1\<lparr> open_streams := Suc (open_streams w1) \<rparr>));
                    (t0, w3) = time_now en w2
                in case record_loop en fuel path dur t0 w3 of
                     None \<Rightarrow> None
                   | Some (Inl e, w4) \<Rightarrow>
                       Some (Inl e, SoundFile_close path (stream_close w4))
                   | Some (Inr _, w4) \<Rightarrow>
                       Some (Inr (), SoundFile_close path
                                       (emit (Flushed path) (stream_close w4))))))"

text \<open>
  The method \<^verbatim>\<open>record\<close>. The latency and the subtype go to the libraries unchanged and
  are left out.
\<close>

definition record_sound ::
  "env \<Rightarrow> nat \<Rightarrow> string option \<Rightarrow> real option \<Rightarrow> device option \<Rightarrow> int option \<Rightarrow> int option
   \<Rightarrow> int \<Rightarrow> world \<Rightarrow> ((exn + unit) \<times> world) option" where
  "record_sound en fuel file dur dev sample_rate blocksize channels w =
     (let w1 = record_prelude w;
          path = (if truthy_str file then abspath en (the file) else mktemp en);
          w2 = remove_existing path w1
      in case resolve_device en ''input'' dev (input_device w2) of
           Inl e \<Rightarrow> Some (Inl e, w2)
         | Inr dev' \<Rightarrow>
             (case resolve_samplerate en sample_rate dev' of
                Inl e \<Rightarrow> Some (Inl e, w2)
              | Inr sr \<Rightarrow>
                  (case record_try en fuel path dur sr
                          (case blocksize of None \<Rightarrow> input_blocksize w2 | Some b \<Rightarrow> b)
                          channels w2 of
                     None \<Rightarrow> None
                   | Some (r, w3) \<Rightarrow> Some (record_finally r w3))))"

text \<open>The loop of \<^verbatim>\<open>recordplay\<close>: it sleeps a tenth of a second in each round.\<close>

fun recordplay_loop :: "env \<Rightarrow> nat \<Rightarrow> real option \<Rightarrow> real \<Rightarrow> world \<Rightarrow> world option" where
  "recordplay_loop en 0 dur t0 w = None"
| "recordplay_loop en (Suc n) dur t0 w =
     (let w1 = observe en w
      in if recording_state w1 = REC_STOPPED then Some w1
         else
           (let (go, w2) = time_left en dur t0 w1
            in if \<not> go then Some w2
               else
                 (case wait_while_recording_paused en (Suc n) w2 of
                    None \<Rightarrow> None
                  | Some w3 \<Rightarrow> recordplay_loop en n dur t0 (emit (Slept (1 / 10)) w3))))"

definition recordplay_finally :: "exn + unit \<Rightarrow> world \<Rightarrow> (exn + unit) \<times> world" where
  "recordplay_finally r w =
     (let w1 = (if r = Inl QueueEmpty
                then emit (Warning ''Recording timeout: audio callback failed?'') w else w);
          r' = (if r = Inl QueueEmpty then Inr () else r)
      in (r', stop_recording (stop_playback w1)))"

text \<open>Lines 619 to 628 of \<^verbatim>\<open>recordplay\<close>.\<close>

definition recordplay_prelude :: "world \<Rightarrow> world" where
  "recordplay_prelude w =
     (let w1 = (if playback_state w \<noteq> STOPPED then emit (Slept 2) (stop_playback w) else w);
          w2 = (if recording_state w1 \<noteq> REC_STOPPED
                then emit (Slept 2) (stop_recording w1) else w1)
      in w2\<lparr> playback_paused_changed := False, recording_paused_changed := False \<rparr>)"

text \<open>The \<^verbatim>\<open>try\<close> block of \<^verbatim>\<open>recordplay\<close>.\<close>

definition recordplay_try ::
  "env \<Rightarrow> nat \<Rightarrow> real option \<Rightarrow> int \<Rightarrow> int \<Rightarrow> int \<Rightarrow> world \<Rightarrow> ((exn + unit) \<times> world) option" where
  "recordplay_try en fuel dur sample_rate blocksize channels w =
     (case open_stream en DuplexStream sample_rate blocksize channels of
        Some e \<Rightarrow> Some (Inl e, w)
      | None \<Rightarrow>
          (let w1 = emit (Info ''Started recording pass-through'')
                      (start_playback (start_recording
                         (w\<lparr> open_streams := Suc (open_streams w) \<rparr>)));
               (t0, w2) = time_now en w1
           in case recordplay_loop en fuel dur t0 w2 of
                None \<Rightarrow> None
              | Some w3 \<Rightarrow> Some (Inr (), stream_close w3)))"

text \<open>
  The method \<^verbatim>\<open>recordplay\<close>. The latency and the data type go to the audio library
  unchanged and are left out.
\<close>

definition recordplay ::
  "env \<Rightarrow> nat \<Rightarrow> real option \<Rightarrow> device option \<Rightarrow> device option \<Rightarrow> int option \<Rightarrow> int option
   \<Rightarrow> int \<Rightarrow> world \<Rightarrow> ((exn + unit) \<times> world) option" where
  "recordplay en fuel dur input_dev output_dev sample_rate blocksize channels w =
     (let w1 = recordplay_prelude w
      in case resolve_device en ''input'' input_dev (input_device w1) of
           Inl e \<Rightarrow> Some (Inl e, w1)
         | Inr in_dev \<Rightarrow>
             (case resolve_device en ''output'' output_dev (output_device w1) of
                Inl e \<Rightarrow> Some (Inl e, w1)
              | Inr _ \<Rightarrow>
                  (case resolve_samplerate en sample_rate in_dev of
                     Inl e \<Rightarrow> Some (Inl e, w1)
                   | Inr sr \<Rightarrow>
                       (case recordplay_try en fuel dur sr
                               (case blocksize of None \<Rightarrow> output_blocksize w1 | Some b \<Rightarrow> b)
                               channels w1 of
                          None \<Rightarrow> None
                        | Some (r, w2) \<Rightarrow> Some (recordplay_finally r w2)))))"

section \<open>Measures on the events and concrete inputs\<close>

text \<open>The number of samples put on the playback queue, and the calls of \<^verbatim>\<open>get_wave\<close>.\<close>

fun enqueued_samples :: "event list \<Rightarrow> nat" where
  "enqueued_samples [] = 0"
| "enqueued_samples (Enqueued b # es) = length b + enqueued_samples es"
| "enqueued_samples (_ # es) = enqueued_samples es"

fun synth_ends :: "event list \<Rightarrow> real list" where
  "synth_ends [] = []"
| "synth_ends (Synth _ t_end _ # es) = t_end # synth_ends es"
| "synth_ends (_ # es) = synth_ends es"

text \<open>
  A step that only adds events, none of them about a file, and changes neither the open
  files, the open streams nor the file system.
\<close>

fun file_event :: "event \<Rightarrow> bool" where
  "file_event (Unlinked _) = True"
| "file_event (Written _ _) = True"
| "file_event (Flushed _) = True"
| "file_event _ = False"

definition carries_on :: "world \<Rightarrow> world \<Rightarrow> bool" where
  "carries_on w w' =
     (\<exists>es. events w' = events w @ es \<and> filter file_event es = []
        \<and> open_files w' = open_files w \<and> open_streams w' = open_streams w
        \<and> filesystem w' = filesystem w)"

text \<open>The conditions under which \<^verbatim>\<open>play\<close> reaches its \<^verbatim>\<open>try\<close> block.\<close>

definition enters_try :: "env \<Rightarrow> string option \<Rightarrow> sounds_arg option \<Rightarrow> device option \<Rightarrow> world \<Rightarrow> bool" where
  "enters_try en file sounds dev w =
     ((truthy_str file \<or> truthy_sounds sounds)
      \<and> (case resolve_device en ''output'' dev (output_device w) of
             Inl _ \<Rightarrow> False
           | Inr _ \<Rightarrow> True))"

text \<open>What this call wrote to the file at \<open>path\<close>, in order.\<close>

fun written_to :: "string \<Rightarrow> event list \<Rightarrow> block" where
  "written_to path [] = []"
| "written_to path (Written p b # es) = (if p = path then b else []) @ written_to path es"
| "written_to path (_ # es) = written_to path es"

text \<open>
  A step that only adds events and, when \<open>path\<close> is a regular file, leaves it as a
  regular file with the blocks written during the step appended.
\<close>

definition appends_to :: "string \<Rightarrow> world \<Rightarrow> world \<Rightarrow> bool" where
  "appends_to path w w' =
     (\<exists>es. events w' = events w @ es
        \<and> open_files w' = open_files w \<and> open_streams w' = open_streams w
        \<and> (\<forall>c. filesystem w path = Some (RegularFile c)
               \<longrightarrow> filesystem w' path = Some (RegularFile (c @ written_to path es))))"

text \<open>
  An environment in which no other thread touches the plugin, every library call
  succeeds, every sound file is empty, the callback keeps the queue drained, nothing is
  captured and the clock advances by a second at each reading.
\<close>

definition quiet_env :: env where
  "quiet_env =
     \<lparr> other_threads = (\<lambda>_. []), abspath = (\<lambda>p. p),
       mktemp = ''platypush_recording_.wav'',
       default_device = (\<lambda>_. Inr None), default_samplerate = (\<lambda>_. Inr 44100),
       json_loads = (\<lambda>_. Inl ValueError),
       SoundFile_open = (\<lambda>_. Inr \<lparr> sf_samplerate = 44100, sf_channels = 1, sf_frames = [] \<rparr>),
       open_stream = (\<lambda>_ _ _ _. None), drained = (\<lambda>_. 1), stream_finishes = True,
       captured = (\<lambda>_. None), now = (\<lambda>k. real k) \<rparr>"

text \<open>The same, with one other thread that calls \<^verbatim>\<open>stop_playback\<close> right away.\<close>

definition stopping_env :: env where
  "stopping_env = quiet_env\<lparr> other_threads := (\<lambda>k. if k = 0 then [CallStopPlayback] else []) \<rparr>"

text \<open>
  An environment for a recording: the capture callback delivers the block \<open>[1/2]\<close>
  whenever asked, and another thread calls \<^verbatim>\<open>stop_recording\<close> from the fourth look on.
\<close>

definition recording_env :: env where
  "recording_env =
     quiet_env\<lparr> other_threads := (\<lambda>k. if 3 \<le> k then [CallStopRecording] else []),
                captured := (\<lambda>_. Some [1 / 2]) \<rparr>"

text \<open>A plugin with the default settings on an empty file system.\<close>

definition plugin0 :: world where
  "plugin0 = SoundPlugin_init None None DEFAULT_BLOCKSIZE DEFAULT_BLOCKSIZE DEFAULT_BUFSIZE Map.empty"

text \<open>
  A session was paused, and a later call of \<^verbatim>\<open>play\<close> cleared the event
  \<^verbatim>\<open>playback_paused_changed\<close>, as line 320 does.
\<close>

definition paused_cleared :: world where
  "paused_cleared = (pause_playback (start_playback plugin0))\<lparr> playback_paused_changed := False \<rparr>"



text \<open>A machine without an audio device: the lookup of the default device fails.\<close>

definition no_device_env :: env where
  "no_device_env = quiet_env\<lparr> default_device := (\<lambda>_. Inl PortAudioError) \<rparr>"

text \<open>A plugin whose file system holds an older recording at \<open>out.wav\<close>.\<close>

definition plugin_with_file :: world where
  "plugin_with_file =
     SoundPlugin_init None None DEFAULT_BLOCKSIZE DEFAULT_BLOCKSIZE DEFAULT_BUFSIZE
       [''out.wav'' \<mapsto> RegularFile [1, 2, 3]]"

section \<open>Floating-point rounding\<close>

lemma round_even_err: "\<bar>of_int (round_even x) - x\<bar> \<le> 1 / 2"
  unfolding round_even_def Let_def by (auto simp: abs_if) linarith+

lemma fl_eval:
  assumes "2 ^ 52 \<le> \<bar>x\<bar> * 2 ^ k" and "\<bar>x\<bar> * 2 ^ k < 2 ^ 53"
  shows "fl x = of_int (round_even (x * 2 ^ k)) / 2 ^ k"
proof -
  have x0: "x \<noteq> 0" using assms by auto
  then have pos: "0 < \<bar>x\<bar>" by simp
  have "log 2 (\<bar>x\<bar> * 2 ^ k) = log 2 \<bar>x\<bar> + real k"
    using pos by (simp add: log_mult log_nat_power)
  moreover have "52 \<le> log 2 (\<bar>x\<bar> * 2 ^ k)"
    using assms(1) pos le_log_iff [of 2 "\<bar>x\<bar> * 2 ^ k" 52] by (simp add: powr_realpow)
  moreover have "log 2 (\<bar>x\<bar> * 2 ^ k) < 53"
    using assms(2) pos log_less_iff [of 2 "\<bar>x\<bar> * 2 ^ k" 53] by (simp add: powr_realpow)
  ultimately have "\<lfloor>log 2 \<bar>x\<bar>\<rfloor> = 52 - int k"
    by (intro floor_unique) simp_all
  then have e: "\<lfloor>log 2 \<bar>x\<bar>\<rfloor> - 52 = - int k" by simp
  have p: "2 powr (of_int (- int k)) = 1 / (2 ^ k :: real)"
    by (simp add: powr_minus powr_realpow inverse_eq_divide)
  show ?thesis using x0 by (simp add: fl_def e p Let_def del: of_int_minus)
qed

lemma fl_rel_err: "\<bar>fl x - x\<bar> \<le> \<bar>x\<bar> / 2 ^ 53"
proof (cases "x = 0")
  case True then show ?thesis by (simp add: fl_def)
next
  case False
  define e where "e = \<lfloor>log 2 \<bar>x\<bar>\<rfloor> - 52"
  define p where "p = (2::real) powr (of_int e)"
  have ppos: "0 < p" by (simp add: p_def)
  have flx: "fl x = of_int (round_even (x / p)) * p"
    using False by (simp add: fl_def e_def p_def Let_def)
  have "of_int (e + 52) \<le> log 2 \<bar>x\<bar>" by (simp add: e_def)
  then have "2 powr (of_int (e + 52)) \<le> \<bar>x\<bar>"
    using False by (simp add: le_log_iff del: of_int_add)
  then have lo: "p * 2 ^ 52 \<le> \<bar>x\<bar>"
    by (simp add: p_def powr_add powr_realpow [symmetric])
  have "fl x - x = (of_int (round_even (x / p)) - x / p) * p"
    using ppos by (simp add: flx left_diff_distrib)
  then have "\<bar>fl x - x\<bar> = \<bar>of_int (round_even (x / p)) - x / p\<bar> * p"
    using ppos by (simp add: abs_mult)
  also have "\<dots> \<le> (1 / 2) * p"
    using round_even_err [of "x / p"] ppos by (intro mult_right_mono) simp_all
  also have "\<dots> \<le> \<bar>x\<bar> / 2 ^ 53" using lo by simp
  finally show ?thesis .
qed


lemma fl_bounds: "x - \<bar>x\<bar> / 2 ^ 53 \<le> fl x" "fl x \<le> x + \<bar>x\<bar> / 2 ^ 53"
  using fl_rel_err [of x] by linarith+

lemma fl_ratio_460: "26 / 25 \<le> fl (460 / 440)" "fl (460 / 440) \<le> 21 / 20"
  using fl_bounds [of "460 / 440"] by simp_all

lemma log2_ratio_460:
  "5 / 8 \<le> 12 * log 2 (fl (460 / 440))" "12 * log 2 (fl (460 / 440)) \<le> 7 / 8"
proof -
  define q where "q = fl (460 / 440)"
  have q: "26 / 25 \<le> q" "q \<le> 21 / 20" using fl_ratio_460 by (simp_all add: q_def)
  then have qpos: "0 < q" by simp
  have pw: "real 96 * log 2 q = log 2 (q ^ 96)" using qpos by (simp add: log_nat_power)
  have l5: "log 2 (32::real) = 5" using log_nat_power [of 2 2 5] by simp
  have l7: "log 2 (128::real) = 7" using log_nat_power [of 2 2 7] by simp
  have "(2::real) ^ 5 \<le> (26 / 25) ^ 96" by (simp add: power_divide)
  also have "\<dots> \<le> q ^ 96" using q(1) by (intro power_mono) simp_all
  finally have "log 2 (2 ^ 5) \<le> log 2 (q ^ 96)" using qpos by (subst log_le_cancel_iff) simp_all
  then have "5 \<le> 96 * log 2 q" using pw l5 by simp
  then show "5 / 8 \<le> 12 * log 2 (fl (460 / 440))" by (simp add: q_def)
  have "q ^ 96 \<le> (21 / 20) ^ 96" using q(2) qpos by (intro power_mono) simp_all
  also have "\<dots> \<le> (2::real) ^ 7" by (simp add: power_divide)
  finally have "log 2 (q ^ 96) \<le> log 2 (2 ^ 7)" using qpos by (subst log_le_cancel_iff) simp_all
  then have "96 * log 2 q \<le> 7" using pw l7 by simp
  then show "12 * log 2 (fl (460 / 440)) \<le> 7 / 8" by (simp add: q_def)
qed

lemma fl_pos_bounds:
  fixes a :: real
  assumes apos: "0 < a"
  shows "a * (999 / 1000) \<le> fl a" "fl a \<le> a * (1001 / 1000)"
proof -
  have e: "\<bar>a\<bar> = a" using apos by simp
  have u: "a / 2 ^ 53 \<le> a / 1000" using apos by (intro divide_left_mono) simp_all
  show "a * (999 / 1000) \<le> fl a" using fl_bounds(1) [of a] u unfolding e by linarith
  show "fl a \<le> a * (1001 / 1000)" using fl_bounds(2) [of a] u unfolding e by linarith
qed

lemma math_log_460:
  "3 / 5 \<le> 12 * math_log (fl (460 / 440)) 2" "12 * math_log (fl (460 / 440)) 2 \<le> 9 / 10"
proof -
  define q where "q = fl (460 / 440)"
  define a where "a = ln q"
  define b where "b = ln (2::real)"
  define d where "d = fl a / fl b"
  have q: "26 / 25 \<le> q" "q \<le> 21 / 20" using fl_ratio_460 by (simp_all add: q_def)
  have apos: "0 < a" unfolding a_def using q(1) by (intro ln_gt_zero) simp
  have bpos: "0 < b" unfolding b_def by simp
  have lg: "log 2 q = a / b" by (simp add: log_def a_def b_def)
  have c: "5 / 8 \<le> 12 * (a / b)" "12 * (a / b) \<le> 7 / 8"
    using log2_ratio_460 unfolding q_def [symmetric] lg by simp_all
  note fa = fl_pos_bounds [OF apos]
  note fb = fl_pos_bounds [OF bpos]
  have a1: "0 < a * (999 / 1000)" using apos by simp
  have b1: "0 < b * (999 / 1000)" using bpos by simp
  have fapos: "0 < fl a" using fa(1) a1 by linarith
  have fbpos: "0 < fl b" using fb(1) b1 by linarith
  have "d \<le> (a * (1001 / 1000)) / (b * (999 / 1000))"
    unfolding d_def
  proof (rule frac_le)
    show "0 \<le> a * (1001 / 1000)" using apos by simp
    show "fl a \<le> a * (1001 / 1000)" by (rule fa(2))
    show "0 < b * (999 / 1000)" by (rule b1)
    show "b * (999 / 1000) \<le> fl b" by (rule fb(1))
  qed
  also have "\<dots> = (a / b) * (1001 / 999)" by simp
  finally have d2: "12 * d \<le> 89 / 100" using c(2) by simp
  have "(a / b) * (999 / 1001) = (a * (999 / 1000)) / (b * (1001 / 1000))" by simp
  also have "\<dots> \<le> d"
    unfolding d_def
  proof (rule frac_le)
    show "0 \<le> fl a" using fapos by simp
    show "a * (999 / 1000) \<le> fl a" by (rule fa(1))
    show "0 < fl b" by (rule fbpos)
    show "fl b \<le> b * (1001 / 1000)" by (rule fb(2))
  qed
  finally have d1: "61 / 100 \<le> 12 * d" using c(1) by simp
  have dpos: "0 < d" using d1 by simp
  have m: "math_log (fl (460 / 440)) 2 = fl d"
    unfolding math_log_def d_def a_def b_def q_def by (rule refl)
  note fd = fl_pos_bounds [OF dpos]
  show "3 / 5 \<le> 12 * math_log (fl (460 / 440)) 2"
    unfolding m using fd(1) d1 by linarith
  show "12 * math_log (fl (460 / 440)) 2 \<le> 9 / 10"
    unfolding m using fd(2) d2 by linarith
qed

lemma log2_exact_460:
  "1 / 2 \<le> 12 * log 2 (460 / 440 :: real)" "12 * log 2 (460 / 440 :: real) < 1"
proof -
  let ?r = "23 / 22 :: real"
  have tw: "real 12 * log 2 ?r = log 2 (?r ^ 12)" "real 24 * log 2 ?r = log 2 (?r ^ 24)"
    by (simp_all add: log_nat_power)
  have "?r ^ 12 < 2" by (simp add: power_divide)
  then have "log 2 (?r ^ 12) < log 2 2" by (subst log_less_cancel_iff) simp_all
  then show "12 * log 2 (460 / 440 :: real) < 1" using tw(1) by simp
  have "2 \<le> ?r ^ 24" by (simp add: power_divide)
  then have "log 2 2 \<le> log 2 (?r ^ 24)" by (subst log_le_cancel_iff) simp_all
  then have "1 \<le> 24 * log 2 ?r" using tw(2) by simp
  then show "1 / 2 \<le> 12 * log 2 (460 / 440 :: real)" by simp
qed

text \<open>
  C1. The source documents \<^verbatim>\<open>freq_to_note\<close> as returning the closest MIDI note, and the
  claim reads that as rounding \<open>69 + 12 * log2 (f / 440)\<close> to the nearest integer. The
  code applies \<^verbatim>\<open>int\<close>, which truncates: at 460 Hz the expression lies between 69.5 and
  70, the code returns 69 and the nearest note is 70.
\<close>

theorem freq_to_note_truncates:
  "freq_to_note 460 STANDARD_A_FREQUENCY = Inr 69
   \<and> round (69 + 12 * log 2 (460 / 440 :: real)) = 70"
proof -
  define y where "y = 12 * math_log (fl (460 / 440)) 2"
  have y: "3 / 5 \<le> y" "y \<le> 9 / 10" using math_log_460 by (simp_all add: y_def)
  have y1: "1 / 2 \<le> fl y" "fl y \<le> 15 / 16"
    using fl_bounds [of y] y by simp_all
  note b = fl_bounds [of "fl y + 69", simplified]
  have e: "\<bar>fl y + 69\<bar> = fl y + 69" using y1 by simp
  have u: "(fl y + 69) / 9007199254740992 \<le> 1 / 32" using y1 by simp
  have y2a: "69 \<le> fl (fl y + 69)" using b(1) y1(1) u unfolding e by linarith
  have y2b: "fl (fl y + 69) < 70" using b(2) y1(2) u unfolding e by linarith
  note y2 = y2a y2b
  then have "\<lfloor>fl (fl y + 69)\<rfloor> = 69" by (intro floor_unique) simp_all
  then have "py_int (fl (fl y + 69)) = 69" using y2 by (simp add: py_int_def)
  moreover have "0 < fl (460 / 440)" using fl_ratio_460 by simp
  ultimately have "freq_to_note 460 STANDARD_A_FREQUENCY = Inr 69"
    by (simp add: freq_to_note_def STANDARD_A_FREQUENCY_def STANDARD_A_MIDI_NOTE_def y_def)
  moreover have "round (69 + 12 * log 2 (460 / 440 :: real)) = 70"
    unfolding round_def using log2_exact_460 by (intro floor_unique) simp_all
  ultimately show ?thesis by simp
qed

text \<open>
  C9. The constructor tests \<^verbatim>\<open>midi_note\<close> and \<^verbatim>\<open>frequency\<close> for truthiness, so the MIDI
  note 0 with no frequency raises, and a zero argument is treated as an absent one.
\<close>

theorem Sound_init_zero_is_absent:
  "Sound_init (Some 0) None g d A = Inl RuntimeError
   \<and> Sound_init (Some 0) f g d A = Sound_init None f g d A
   \<and> Sound_init m (Some 0) g d A = Sound_init m None g d A"
  by (simp add: Sound_init_def)

section \<open>The tone generator and the state machines\<close>

lemma fl_zero [simp]: "fl 0 = 0"
  by (simp add: fl_def)

lemma fl_one: "fl 1 = 1"
  by (subst fl_eval [of _ 52]) (simp_all add: round_even_def)

lemma fl_half: "fl (1 / 2) = 1 / 2"
  by (subst fl_eval [of _ 53]) (simp_all add: round_even_def)

lemma fl_three: "fl 3 = 3"
  by (subst fl_eval [of _ 51]) (simp_all add: round_even_def)

lemma fl_seven_quarters: "fl (7 / 4) = 7 / 4"
  by (subst fl_eval [of _ 52]) (simp_all add: round_even_def)

lemma upt_3: "[0..<3] = [0, 1, 2]"
  by (simp add: upt_rec)

text \<open>
  C7. \<^verbatim>\<open>get_wave\<close> is claimed to return \<open>round ((t_end - t_start) * samplerate)\<close> samples
  at times spaced by \<open>1 / samplerate\<close> over the half-open interval from \<open>t_start\<close> to
  \<open>t_end\<close>. The code truncates the count with \<^verbatim>\<open>int\<close> and takes the times from
  \<^verbatim>\<open>linspace\<close>, which includes \<open>t_end\<close>: from 0 to 1 at 3 samples per second the times are
  0, 1/2 and 1 instead of 0, 1/3 and 2/3, and from 0 to 7/4 at 1 sample per second there
  is one sample where rounding gives two.
\<close>

theorem get_wave_closed_interval:
  "get_wave A4 0 1 3 = Inr (map (wave_at A4) [0, 1 / 2, 1])
   \<and> get_wave A4 0 (7 / 4) 1 = Inr [wave_at A4 0]
   \<and> round ((7 / 4 - 0) * real_of_int 1) = 2"
proof -
  have "get_wave A4 0 1 3 = Inr (map (wave_at A4) [0, 1 / 2, 1])"
    by (simp add: get_wave_def linspace_def py_int_def fl_one fl_half fl_three upt_3)
  moreover have "get_wave A4 0 (7 / 4) 1 = Inr [wave_at A4 0]"
    by (simp add: get_wave_def linspace_def py_int_def fl_seven_quarters)
  moreover have "round ((7 / 4 - 0) * real_of_int 1) = 2"
    by (simp add: round_def)
  ultimately show ?thesis by simp
qed

text \<open>
  C3, as claimed: \<^verbatim>\<open>stop_playback\<close> and \<^verbatim>\<open>stop_recording\<close> set the paused-changed event
  and so release a thread blocked in a paused wait. They do not: after a stop in a paused
  session whose event was cleared the event is still unset, and a thread waiting on it
  stays blocked while another thread calls \<^verbatim>\<open>stop_playback\<close>.
\<close>

theorem stop_leaves_event_unset:
  "playback_state paused_cleared = PAUSED
   \<and> playback_state (stop_playback paused_cleared) = STOPPED
   \<and> \<not> playback_paused_changed (stop_playback paused_cleared)
   \<and> wait_playback_paused_changed stopping_env 3 paused_cleared = None
   \<and> \<not> recording_paused_changed (stop_recording (start_recording plugin0))"
  by (simp add: paused_cleared_def plugin0_def SoundPlugin_init_def start_playback_def
      pause_playback_def stop_playback_def emit_def stopping_env_def quiet_env_def
      observe_def numeral_3_eq_3 stop_recording_def start_recording_def)

text \<open>
  C3, as amended: \<^verbatim>\<open>stop_playback\<close> and \<^verbatim>\<open>stop_recording\<close>, called in any state, set the
  state to stopped and leave the paused-changed event as it was.
\<close>

theorem stop_sets_state_only:
  "playback_state (stop_playback w) = STOPPED
   \<and> playback_paused_changed (stop_playback w) = playback_paused_changed w
   \<and> recording_state (stop_recording w) = REC_STOPPED
   \<and> recording_paused_changed (stop_recording w) = recording_paused_changed w"
  by (simp add: stop_playback_def stop_recording_def emit_def)




text \<open>The sound used in the runs below is what the constructor and the JSON form give.\<close>

lemma A4_constructed: "Sound_init (Some 69) None 1 (Some 1) STANDARD_A_FREQUENCY = Inr A4"
proof -
  have "fl 440 = 440" by (subst fl_eval [of _ 44]) (simp_all add: round_even_def)
  then show ?thesis
    by (simp add: Sound_init_def note_to_freq_def A4_def STANDARD_A_FREQUENCY_def
        STANDARD_A_MIDI_NOTE_def fl_zero fl_one)
qed

lemma A4_from_dict:
  "convert_items [SoundDict \<lparr> kw_midi_note = Some 69, kw_frequency = None, kw_gain = None,
                               kw_duration = Some 1, kw_A_frequency = None \<rparr>] = Inr [A4]"
  using A4_constructed by (simp add: Sound_of_dict_def)

section \<open>Steps that only add events\<close>

lemmas state_ops =
  start_playback_def stop_playback_def pause_playback_def
  start_recording_def stop_recording_def pause_recording_def emit_def

lemma carries_on_refl [simp]: "carries_on w w"
  by (simp add: carries_on_def)

lemma carries_on_trans: "carries_on w w1 \<Longrightarrow> carries_on w1 w2 \<Longrightarrow> carries_on w w2"
  by (auto simp: carries_on_def)

lemma carries_on_emit: "\<not> file_event e \<Longrightarrow> carries_on w (emit e w)"
  by (simp add: carries_on_def emit_def)

lemma carries_on_enqueued: "carries_on w (emit (Enqueued d) w)"
  by (simp add: carries_on_emit)

lemma carries_on_prefix: "carries_on w w' \<Longrightarrow> prefix (events w) (events w')"
  by (auto simp: carries_on_def)

lemma carries_on_do_call: "carries_on w (do_call w c)"
  by (cases c) (simp_all add: carries_on_def state_ops)

lemma carries_on_foldl: "carries_on w (foldl do_call w cs)"
proof (induction cs arbitrary: w)
  case Nil
  show ?case by simp
next
  case (Cons c cs)
  show ?case
    using carries_on_trans [OF carries_on_do_call [of w c] Cons.IH [of "do_call w c"]] by simp
qed

lemma carries_on_observe: "carries_on w (observe en w)"
  using carries_on_foldl [of w "other_threads en (clock w)"]
  by (simp add: observe_def carries_on_def)

lemma carries_on_time_now: "carries_on w (snd (time_now en w))"
  by (simp add: time_now_def carries_on_def)

lemma carries_on_wait_playback_event:
  "wait_playback_paused_changed en n w = Some w' \<Longrightarrow> carries_on w w'"
proof (induction n arbitrary: w)
  case 0
  then show ?case by (simp split: if_splits)
next
  case (Suc n)
  show ?case
  proof (cases "playback_paused_changed w")
    case True
    with Suc.prems show ?thesis by simp
  next
    case False
    with Suc.prems have "wait_playback_paused_changed en n (observe en w) = Some w'" by simp
    then have "carries_on (observe en w) w'" by (rule Suc.IH)
    then show ?thesis using carries_on_observe carries_on_trans by blast
  qed
qed

lemma carries_on_wait_playback:
  "wait_while_playback_paused en n w = Some w' \<Longrightarrow> carries_on w w'"
proof (induction n arbitrary: w)
  case 0
  then show ?case by simp
next
  case (Suc n)
  let ?w1 = "observe en w"
  have o: "carries_on w ?w1" by (rule carries_on_observe)
  show ?case
  proof (cases "playback_state ?w1 = PAUSED")
    case False
    with Suc.prems have "w' = ?w1" by (simp add: Let_def)
    then show ?thesis using o by simp
  next
    case True
    with Suc.prems obtain w2 where
      a: "wait_playback_paused_changed en n ?w1 = Some w2" and
      b: "wait_while_playback_paused en n w2 = Some w'"
      by (auto simp: Let_def split: option.splits)
    from a have "carries_on ?w1 w2" by (rule carries_on_wait_playback_event)
    moreover from b have "carries_on w2 w'" by (rule Suc.IH)
    ultimately show ?thesis using o carries_on_trans by blast
  qed
qed

lemma carries_on_wait_recording_event:
  "wait_recording_paused_changed en n w = Some w' \<Longrightarrow> carries_on w w'"
proof (induction n arbitrary: w)
  case 0
  then show ?case by (simp split: if_splits)
next
  case (Suc n)
  show ?case
  proof (cases "recording_paused_changed w")
    case True
    with Suc.prems show ?thesis by simp
  next
    case False
    with Suc.prems have "wait_recording_paused_changed en n (observe en w) = Some w'" by simp
    then have "carries_on (observe en w) w'" by (rule Suc.IH)
    then show ?thesis using carries_on_observe carries_on_trans by blast
  qed
qed

lemma carries_on_wait_recording:
  "wait_while_recording_paused en n w = Some w' \<Longrightarrow> carries_on w w'"
proof (induction n arbitrary: w)
  case 0
  then show ?case by simp
next
  case (Suc n)
  let ?w1 = "observe en w"
  have o: "carries_on w ?w1" by (rule carries_on_observe)
  show ?case
  proof (cases "recording_state ?w1 = REC_PAUSED")
    case False
    with Suc.prems have "w' = ?w1" by (simp add: Let_def)
    then show ?thesis using o by simp
  next
    case True
    with Suc.prems obtain w2 where
      a: "wait_recording_paused_changed en n ?w1 = Some w2" and
      b: "wait_while_recording_paused en n w2 = Some w'"
      by (auto simp: Let_def split: option.splits)
    from a have "carries_on ?w1 w2" by (rule carries_on_wait_recording_event)
    moreover from b have "carries_on w2 w'" by (rule Suc.IH)
    ultimately show ?thesis using o carries_on_trans by blast
  qed
qed

lemma carries_on_next_block:
  "next_block f sounds blocksize samplerate t w = (r, w') \<Longrightarrow> carries_on w w'"
  by (auto simp: next_block_def Let_def carries_on_emit
      split: option.splits list.splits prod.splits sum.splits if_splits)


lemma carries_on_prefill:
  "prefill en fuel k sounds bs sr ms f t q w = Some (r, w') \<Longrightarrow> carries_on w w'"
proof (induction k arbitrary: f t q w)
  case 0
  then show ?case by simp
next
  case (Suc k)
  obtain nb w1 where nb: "next_block f sounds bs sr t w = (nb, w1)" by fastforce
  then have c1: "carries_on w w1" by (rule carries_on_next_block)
  show ?case
  proof (cases nb)
    case (Inl e)
    with Suc.prems nb show ?thesis using c1 by simp
  next
    case (Inr x)
    obtain d f' t' where x: "x = (d, f', t')" by (cases x)
    show ?thesis
    proof (cases d)
      case None
      with Suc.prems nb Inr x show ?thesis using c1 by simp
    next
      case (Some data)
      with Suc.prems nb Inr x obtain w2 where
        w2: "wait_while_playback_paused en fuel w1 = Some w2"
        by (auto split: option.splits)
      then have c2: "carries_on w1 w2" by (rule carries_on_wait_playback)
      let ?w3 = "observe en w2"
      have c3: "carries_on w ?w3"
        using c1 c2 carries_on_observe carries_on_trans by blast
      show ?thesis
      proof (cases "playback_state ?w3 = STOPPED \<or> full ms q")
        case True
        with Suc.prems nb Inr x Some w2 have "w' = ?w3" by (auto simp: Let_def split: if_splits)
        then show ?thesis using c3 by simp
      next
        case False
        with Suc.prems nb Inr x Some w2
        have "prefill en fuel k sounds bs sr ms f' t' (q @ [data]) (emit (Enqueued data) ?w3)
                = Some (r, w')"
          by (simp add: Let_def)
        then have "carries_on (emit (Enqueued data) ?w3) w'" by (rule Suc.IH)
        then show ?thesis using c3 carries_on_enqueued carries_on_trans by blast
      qed
    qed
  qed
qed

lemma carries_on_producer:
  "producer en n sounds bs sr ms f t q w = Some (r, w') \<Longrightarrow> carries_on w w'"
proof (induction n arbitrary: f t q w)
  case 0
  then show ?case by simp
next
  case (Suc n)
  from Suc.prems obtain w1 where
    w1: "wait_while_playback_paused en (Suc n) w = Some w1"
    by (auto simp del: wait_while_playback_paused.simps split: option.splits)
  then have c1: "carries_on w w1" by (rule carries_on_wait_playback)
  obtain nb w2 where nb: "next_block f sounds bs sr t w1 = (nb, w2)" by fastforce
  then have c2: "carries_on w w2" using c1 carries_on_next_block carries_on_trans by blast
  note prems = Suc.prems [simplified producer.simps w1 option.case nb prod.case]
  show ?case
  proof (cases nb)
    case (Inl e)
    with prems show ?thesis using c2 by simp
  next
    case (Inr x)
    obtain d f' t' where x: "x = (d, f', t')" by (cases x)
    show ?thesis
    proof (cases d)
      case None
      with prems Inr x show ?thesis using c2 by simp
    next
      case (Some data)
      let ?w3 = "observe en w2"
      let ?q1 = "drop (drained en (clock ?w3)) q"
      let ?w4 = "observe en ?w3"
      have c3: "carries_on w ?w3" using c2 carries_on_observe carries_on_trans by blast
      have c4: "carries_on w ?w4" using c3 carries_on_observe carries_on_trans by blast
      consider (stopped) "playback_state ?w3 = STOPPED"
        | (timeout) "playback_state ?w3 \<noteq> STOPPED" "full ms ?q1" "playback_state ?w4 \<noteq> PAUSED"
        | (dropped) "playback_state ?w3 \<noteq> STOPPED" "full ms ?q1" "playback_state ?w4 = PAUSED"
        | (put) "playback_state ?w3 \<noteq> STOPPED" "\<not> full ms ?q1"
        by blast
      then show ?thesis
      proof cases
        case stopped
        with prems Inr x Some have "w' = ?w3" by (simp add: Let_def)
        then show ?thesis using c3 by simp
      next
        case timeout
        with prems Inr x Some have "w' = ?w4" by (simp add: Let_def)
        then show ?thesis using c4 by simp
      next
        case dropped
        with prems Inr x Some
        have "producer en n sounds bs sr ms f' t' ?q1 ?w4 = Some (r, w')" by (simp add: Let_def)
        then have "carries_on ?w4 w'" by (rule Suc.IH)
        then show ?thesis using c4 carries_on_trans by blast
      next
        case put
        with prems Inr x Some
        have "producer en n sounds bs sr ms f' t' (?q1 @ [data]) (emit (Enqueued data) ?w3)
                = Some (r, w')"
          by (simp add: Let_def)
        then have "carries_on (emit (Enqueued data) ?w3) w'" by (rule Suc.IH)
        then show ?thesis using c3 carries_on_enqueued carries_on_trans by blast
      qed
    qed
  qed
qed


lemma play_session_started:
  assumes "play_session en fuel file f sounds bs bufsize sr ch w = Some (r, w')"
  shows "carries_on (emit (Info ''Started playback'') (start_playback w)) w'"
proof -
  define sr' where "sr' = (if truthy_int sr then the sr
                         else (case f of Some h \<Rightarrow> sf_samplerate h | None \<Rightarrow> DEFAULT_SAMPLERATE))"
  define ch' where "ch' = (if truthy_int ch then the ch
                       else (case f of Some h \<Rightarrow> sf_channels h | None \<Rightarrow> 1))"
  define w1 where "w1 = emit (Info ''Started playback'') (start_playback w)"
  have c1: "carries_on w1 w1" by simp
  note prems = assms [unfolded play_session_def Let_def, folded sr'_def ch'_def w1_def]
  have "carries_on w1 w'"
  proof (cases "convert_sounds en sounds")
    case (Inl e)
    with prems show ?thesis using c1 by simp
  next
    case (Inr snds)
    with prems obtain r2 w2 where
      pf: "prefill en fuel (nat bufsize) snds bs sr' bufsize f 0 [] w1 = Some (r2, w2)"
      by (auto split: option.splits)
    then have c2: "carries_on w1 w2" using c1 carries_on_prefill carries_on_trans by blast
    show ?thesis
    proof (cases r2)
      case (Inl e)
      with prems Inr pf show ?thesis using c2 by simp
    next
      case r2: (Inr x)
      obtain f' t' q' where x: "x = (f', t', q')" by (cases x)
      show ?thesis
      proof (cases "open_stream en (if truthy_str file then RawOutputStream else OutputStream)
                      sr' bs ch'")
        case (Some e)
        with prems Inr pf r2 x show ?thesis using c2 by simp
      next
        case None
        let ?w3 = "w2\<lparr> open_streams := Suc (open_streams w2) \<rparr>"
        from prems Inr pf r2 x None obtain r4 w4 where
          pr: "producer en fuel snds bs sr' bufsize f' t' q' ?w3 = Some (r4, w4)" and
          w': "w' = w4\<lparr> open_streams := open_streams w4 - 1 \<rparr>"
          by (auto split: option.splits sum.splits if_splits)
        from pr have "carries_on ?w3 w4" by (rule carries_on_producer)
        then show ?thesis using c2 w' by (auto simp: carries_on_def)
      qed
    qed
  qed
  then show ?thesis by (simp add: w1_def)
qed

lemma carries_on_play_session:
  assumes "play_session en fuel file f sounds bs bufsize sr ch w = Some (r, w')"
  shows "carries_on w w'"
proof -
  have "carries_on w (emit (Info ''Started playback'') (start_playback w))"
    by (simp add: carries_on_def state_ops)
  then show ?thesis using play_session_started [OF assms] carries_on_trans by blast
qed

lemma play_finally_stopped:
  "play_finally r opened w = (r', w') \<Longrightarrow> playback_state w' = STOPPED"
  by (auto simp: play_finally_def Let_def state_ops split: option.splits)

lemma play_finally_frame:
  assumes "play_finally r opened w = (r', w')"
  shows "prefix (events w) (events w') \<and> open_streams w' = open_streams w
   \<and> open_files w' = (case opened of Some p \<Rightarrow> remove1 p (open_files w) | None \<Rightarrow> open_files w)"
  using assms by (auto simp: play_finally_def Let_def state_ops split: option.splits)

lemma play_prelude_frame:
  "open_files (play_prelude f w) = open_files w
   \<and> open_streams (play_prelude f w) = open_streams w
   \<and> output_device (play_prelude f w) = output_device w"
  by (simp add: play_prelude_def state_ops)

lemma play_try_frame:
  assumes "play_try en fuel f sounds bs bufsize sr ch w = Some (r, opened, w')"
  shows "prefix (events w) (events w') \<and> open_streams w' = open_streams w
   \<and> open_files w = (case opened of Some p \<Rightarrow> remove1 p (open_files w') | None \<Rightarrow> open_files w')"
proof (cases "truthy_str f")
  case False
  with assms obtain "play_session en fuel f None sounds bs bufsize sr ch w = Some (r, w')"
    and "opened = None"
    by (auto simp: play_try_def split: option.splits)
  then show ?thesis using carries_on_play_session by (fastforce simp: carries_on_def)
next
  case True
  show ?thesis
  proof (cases "SoundFile_open en (the f)")
    case (Inl e)
    with assms True show ?thesis by (simp add: play_try_def)
  next
    case (Inr h)
    let ?w = "w\<lparr> open_files := the f # open_files w \<rparr>"
    from assms True Inr obtain
      ps: "play_session en fuel f (Some h) sounds bs bufsize sr ch ?w = Some (r, w')"
      and o: "opened = f"
      by (auto simp: play_try_def split: option.splits)
    from True have "f = Some (the f)" by (cases f) simp_all
    then show ?thesis
      using carries_on_play_session [OF ps] o by (cases f) (auto simp: carries_on_def)
  qed
qed

lemma play_checked_frame:
  assumes "play_checked en fuel f sounds dev bs bufsize sr ch w = Some (r, w')"
  shows "prefix (events (play_prelude f w)) (events w')
         \<and> open_files w' = open_files w \<and> open_streams w' = open_streams w"
proof -
  define w2 where "w2 = (play_prelude f w)\<lparr> playback_paused_changed := False \<rparr>"
  have w2: "events w2 = events (play_prelude f w)" "open_files w2 = open_files w"
    "open_streams w2 = open_streams w"
    using play_prelude_frame [of f w] by (simp_all add: w2_def)
  note prems = assms [unfolded play_checked_def Let_def, folded w2_def]
  show ?thesis
  proof (cases "resolve_device en ''output'' dev (output_device w2)")
    case (Inl e)
    with prems have "w' = w2" by simp
    then show ?thesis using w2 by simp
  next
    case (Inr d)
    with prems obtain r3 opened w3 bs' f' where
      pt: "play_try en fuel f' sounds bs' bufsize sr ch w2 = Some (r3, opened, w3)" and
      fin: "play_finally r3 opened w3 = (r, w')"
      by (auto split: option.splits)
    show ?thesis
      using play_try_frame [OF pt] play_finally_frame [OF fin] w2
      by (cases opened) (auto intro: prefix_order.trans)
  qed
qed

lemma play_checked_stopped:
  assumes "play_checked en fuel f sounds dev bs bufsize sr ch w = Some (r, w')"
    and "resolve_device en ''output'' dev (output_device w) = Inr d"
  shows "playback_state w' = STOPPED"
proof -
  define w2 where "w2 = (play_prelude f w)\<lparr> playback_paused_changed := False \<rparr>"
  have "output_device w2 = output_device w"
    using play_prelude_frame [of f w] by (simp add: w2_def)
  with assms(2) have d: "resolve_device en ''output'' dev (output_device w2) = Inr d" by simp
  note prems = assms(1) [unfolded play_checked_def Let_def, folded w2_def, unfolded d sum.case]
  then show ?thesis
    by (auto split: option.splits dest: play_finally_stopped)
qed

section \<open>The loops of record and recordplay\<close>

lemma written_to_append: "written_to p (xs @ ys) = written_to p xs @ written_to p ys"
  by (induction p xs rule: written_to.induct) simp_all

lemma written_to_quiet: "filter file_event es = [] \<Longrightarrow> written_to p es = []"
  by (induction p es rule: written_to.induct) (simp_all split: if_splits)

lemma appends_to_refl [simp]: "appends_to p w w"
  by (simp add: appends_to_def)

lemma appends_to_trans: "appends_to p w w1 \<Longrightarrow> appends_to p w1 w2 \<Longrightarrow> appends_to p w w2"
  by (auto simp: appends_to_def written_to_append)

lemma carries_on_appends: "carries_on w w' \<Longrightarrow> appends_to p w w'"
  by (auto simp: carries_on_def appends_to_def written_to_quiet)

lemma appends_to_write: "appends_to p w (SoundFile_write p data w)"
  by (simp add: appends_to_def SoundFile_write_def emit_def)

lemma time_now_snd: "time_now en w = (tm, w') \<Longrightarrow> carries_on w w'"
  by (auto simp: time_now_def carries_on_def)

lemma carries_on_time_left: "time_left en dur t0 w = (go, w') \<Longrightarrow> carries_on w w'"
  by (cases dur) (auto simp: time_left_def time_now_def carries_on_def split: prod.splits)

lemma record_loop_appends:
  "record_loop en n path dur t0 w = Some (r, w') \<Longrightarrow> appends_to path w w'"
proof (induction n arbitrary: w)
  case 0
  then show ?case by simp
next
  case (Suc n)
  let ?w1 = "observe en w"
  have c1: "carries_on w ?w1" by (rule carries_on_observe)
  show ?case
  proof (cases "recording_state ?w1 = REC_STOPPED")
    case True
    with Suc.prems have "w' = ?w1" by (simp add: Let_def)
    then show ?thesis using c1 carries_on_appends by blast
  next
    case False
    obtain go w2 where g: "time_left en dur t0 ?w1 = (go, w2)" by fastforce
    have c2: "carries_on w w2"
      using c1 carries_on_time_left [OF g] carries_on_trans by blast
    note prems = Suc.prems [simplified record_loop.simps Let_def False if_False g prod.case]
    show ?thesis
    proof (cases go)
      case False
      with prems have "w' = w2" by simp
      then show ?thesis using c2 carries_on_appends by blast
    next
      case True
      with prems obtain w3 where
        w3: "wait_while_recording_paused en (Suc n) w2 = Some w3"
        by (auto simp del: wait_while_recording_paused.simps split: option.splits)
      then have c3: "carries_on w w3" using c2 carries_on_wait_recording carries_on_trans by blast
      define w4 where "w4 = (case dur of None \<Rightarrow> w3 | Some d \<Rightarrow> snd (time_now en w3))"
      have c4: "carries_on w w4"
        using c3 carries_on_time_now [of w3 en] carries_on_trans
        by (cases dur) (auto simp: w4_def)
      note prems = prems [simplified True w3, simplified, folded w4_def]
      show ?thesis
      proof (cases "captured en (clock w4)")
        case None
        with prems have "w' = w4" by (auto split: if_splits)
        then show ?thesis using c4 carries_on_appends by blast
      next
        case (Some data)
        with prems have "record_loop en n path dur t0 (SoundFile_write path data w4) = Some (r, w')"
          by simp
        then have "appends_to path (SoundFile_write path data w4) w'" by (rule Suc.IH)
        then show ?thesis
          using c4 carries_on_appends appends_to_write appends_to_trans by blast
      qed
    qed
  qed
qed

lemma recordplay_loop_carries_on:
  "recordplay_loop en n dur t0 w = Some w' \<Longrightarrow> carries_on w w'"
proof (induction n arbitrary: w)
  case 0
  then show ?case by simp
next
  case (Suc n)
  let ?w1 = "observe en w"
  have c1: "carries_on w ?w1" by (rule carries_on_observe)
  show ?case
  proof (cases "recording_state ?w1 = REC_STOPPED")
    case True
    with Suc.prems have "w' = ?w1" by (simp add: Let_def)
    then show ?thesis using c1 by simp
  next
    case False
    obtain go w2 where g: "time_left en dur t0 ?w1 = (go, w2)" by fastforce
    have c2: "carries_on w w2"
      using c1 carries_on_time_left [OF g] carries_on_trans by blast
    note prems = Suc.prems [simplified recordplay_loop.simps Let_def False if_False g prod.case]
    show ?thesis
    proof (cases go)
      case False
      with prems have "w' = w2" by simp
      then show ?thesis using c2 by simp
    next
      case True
      with prems obtain w3 where
        w3: "wait_while_recording_paused en (Suc n) w2 = Some w3" and
        rec: "recordplay_loop en n dur t0 (emit (Slept (1 / 10)) w3) = Some w'"
        by (auto simp del: wait_while_recording_paused.simps split: option.splits)
      have c3: "carries_on w (emit (Slept (1 / 10)) w3)"
        using c2 carries_on_wait_recording [OF w3] carries_on_emit [of "Slept (1 / 10)" w3]
          carries_on_trans by (meson file_event.simps)
      from rec have "carries_on (emit (Slept (1 / 10)) w3) w'" by (rule Suc.IH)
      then show ?thesis using c3 carries_on_trans by blast
    qed
  qed
qed

lemma record_finally_result:
  assumes "record_finally r w = (r', w')"
  shows "recording_state w' = REC_STOPPED \<and> open_files w' = open_files w
         \<and> open_streams w' = open_streams w \<and> filesystem w' = filesystem w
         \<and> (\<exists>es. events w' = events w @ es \<and> filter file_event es = [])"
  using assms by (auto simp: record_finally_def Let_def state_ops)

lemma record_try_result:
  assumes "record_try en fuel path dur sr bs ch w = Some (r, w')"
  shows "open_files w' = open_files w \<and> open_streams w' = open_streams w
         \<and> (\<exists>es. events w' = events w @ es
               \<and> (filesystem w path = None \<longrightarrow>
                     filesystem w' path = Some (RegularFile (written_to path es))))"
proof (cases "SoundFile_create path w")
  case (Inl e)
  with assms have "w' = w" "filesystem w path \<noteq> None"
    by (auto simp: record_try_def SoundFile_create_def split: if_splits)
  then show ?thesis by simp
next
  case (Inr w1)
  then have w1: "open_files w1 = path # open_files w" "open_streams w1 = open_streams w"
    "events w1 = events w" "filesystem w1 path = Some (RegularFile [])"
    by (auto simp: SoundFile_create_def split: if_splits)
  show ?thesis
  proof (cases "open_stream en InputStream sr bs ch")
    case (Some e)
    with assms Inr have "w' = SoundFile_close path w1" by (simp add: record_try_def)
    then show ?thesis using w1 by (simp add: SoundFile_close_def)
  next
    case None
    define w2 where "w2 = emit (Info ''Started recording'')
                           (start_recording (w1\<lparr> open_streams := Suc (open_streams w1) \<rparr>))"
    obtain t0 w3 where tn: "time_now en w2 = (t0, w3)" by fastforce
    have w3: "open_files w3 = path # open_files w" "open_streams w3 = Suc (open_streams w)"
      "events w3 = events w @ [Info ''Started recording'']"
      "filesystem w3 path = Some (RegularFile [])"
      using tn w1 by (auto simp: w2_def time_now_def state_ops)
    from assms Inr None tn obtain r4 w4 where
      rl: "record_loop en fuel path dur t0 w3 = Some (r4, w4)" and
      w': "w' = SoundFile_close path (stream_close w4)
           \<or> w' = SoundFile_close path (emit (Flushed path) (stream_close w4))"
      by (auto simp: record_try_def Let_def w2_def split: option.splits sum.splits)
    from record_loop_appends [OF rl] obtain es where
      es: "events w4 = events w3 @ es" "open_files w4 = open_files w3"
        "open_streams w4 = open_streams w3"
        "filesystem w4 path = Some (RegularFile (written_to path es))"
      using w3(4) by (auto simp: appends_to_def)
    from w' show ?thesis
    proof
      assume "w' = SoundFile_close path (stream_close w4)"
      then show ?thesis
        using es w3 by (simp add: SoundFile_close_def stream_close_def)
    next
      assume "w' = SoundFile_close path (emit (Flushed path) (stream_close w4))"
      then have "open_files w' = open_files w \<and> open_streams w' = open_streams w
         \<and> events w' = events w @ (Info ''Started recording'' # es @ [Flushed path])
         \<and> filesystem w' path = Some (RegularFile (written_to path es))"
        using es w3 by (simp add: SoundFile_close_def stream_close_def emit_def)
      then show ?thesis by (simp add: written_to_append)
    qed
  qed
qed

lemma record_prelude_frame:
  "recording_state (record_prelude w) = REC_STOPPED
   \<and> open_files (record_prelude w) = open_files w
   \<and> open_streams (record_prelude w) = open_streams w
   \<and> filesystem (record_prelude w) = filesystem w"
  by (simp add: record_prelude_def state_ops)

lemma remove_existing_frame:
  "recording_state (remove_existing p w) = recording_state w
   \<and> open_files (remove_existing p w) = open_files w
   \<and> open_streams (remove_existing p w) = open_streams w"
  by (simp add: remove_existing_def unlink_def state_ops)

lemma record_sound_result:
  assumes "record_sound en fuel f dur dev rate bs ch w = Some (r, w')"
  shows "recording_state w' = REC_STOPPED \<and> open_files w' = open_files w
         \<and> open_streams w' = open_streams w"
proof -
  define path where "path = (if truthy_str f then abspath en (the f) else mktemp en)"
  define w2 where "w2 = remove_existing path (record_prelude w)"
  have w2: "recording_state w2 = REC_STOPPED" "open_files w2 = open_files w"
    "open_streams w2 = open_streams w"
    using record_prelude_frame [of w] remove_existing_frame [of path "record_prelude w"]
    by (simp_all add: w2_def)
  note prems = assms [unfolded record_sound_def Let_def, folded path_def, folded w2_def]
  show ?thesis
  proof (cases "resolve_device en ''input'' dev (input_device w2)")
    case (Inl e)
    with prems have "w' = w2" by simp
    then show ?thesis using w2 by simp
  next
    case (Inr d)
    note prems = prems [unfolded Inr sum.case]
    show ?thesis
    proof (cases "resolve_samplerate en rate d")
      case (Inl e)
      with prems have "w' = w2" by simp
      then show ?thesis using w2 by simp
    next
      case (Inr sr)
      with prems obtain bs' r3 w3 where
        rt: "record_try en fuel path dur sr bs' ch w2 = Some (r3, w3)" and
        fin: "record_finally r3 w3 = (r, w')"
        by (auto split: option.splits)
      show ?thesis
        using record_try_result [OF rt] record_finally_result [OF fin] w2 by auto
    qed
  qed
qed

section \<open>How the sessions end\<close>

lemma recordplay_prelude_frame:
  "playback_state (recordplay_prelude w) = STOPPED
   \<and> recording_state (recordplay_prelude w) = REC_STOPPED
   \<and> open_files (recordplay_prelude w) = open_files w
   \<and> open_streams (recordplay_prelude w) = open_streams w"
  by (simp add: recordplay_prelude_def Let_def state_ops)

lemma recordplay_try_result:
  assumes "recordplay_try en fuel dur sr bs ch w = Some (r, w')"
  shows "open_files w' = open_files w \<and> open_streams w' = open_streams w"
proof (cases "open_stream en DuplexStream sr bs ch")
  case (Some e)
  with assms show ?thesis by (simp add: recordplay_try_def)
next
  case None
  define w1 where "w1 = emit (Info ''Started recording pass-through'')
                      (start_playback (start_recording
                         (w\<lparr> open_streams := Suc (open_streams w) \<rparr>)))"
  obtain t0 w2 where tn: "time_now en w1 = (t0, w2)" by fastforce
  have w2: "open_files w2 = open_files w" "open_streams w2 = Suc (open_streams w)"
    using tn by (auto simp: w1_def time_now_def state_ops)
  from assms None tn obtain w3 where
    rl: "recordplay_loop en fuel dur t0 w2 = Some w3" and w': "w' = stream_close w3"
    by (auto simp: recordplay_try_def Let_def w1_def split: option.splits)
  from recordplay_loop_carries_on [OF rl] show ?thesis
    using w2 w' by (auto simp: carries_on_def stream_close_def)
qed

lemma recordplay_finally_result:
  assumes "recordplay_finally r w = (r', w')"
  shows "playback_state w' = STOPPED \<and> recording_state w' = REC_STOPPED
         \<and> open_files w' = open_files w \<and> open_streams w' = open_streams w"
  using assms by (auto simp: recordplay_finally_def Let_def state_ops)

lemma recordplay_result:
  assumes "recordplay en fuel dur idev odev rate bs ch w = Some (r, w')"
  shows "playback_state w' = STOPPED \<and> recording_state w' = REC_STOPPED
         \<and> open_files w' = open_files w \<and> open_streams w' = open_streams w"
proof -
  define w1 where "w1 = recordplay_prelude w"
  note w1 = recordplay_prelude_frame [of w, folded w1_def]
  note prems = assms [unfolded recordplay_def Let_def, folded w1_def]
  show ?thesis
  proof (cases "resolve_device en ''input'' idev (input_device w1)")
    case (Inl e)
    with prems have "w' = w1" by simp
    then show ?thesis using w1 by simp
  next
    case i: (Inr d)
    note prems = prems [unfolded i sum.case]
    show ?thesis
    proof (cases "resolve_device en ''output'' odev (output_device w1)")
      case (Inl e)
      with prems have "w' = w1" by simp
      then show ?thesis using w1 by simp
    next
      case o: (Inr d')
      note prems = prems [unfolded o sum.case]
      show ?thesis
      proof (cases "resolve_samplerate en rate d")
        case (Inl e)
        with prems have "w' = w1" by simp
        then show ?thesis using w1 by simp
      next
        case (Inr sr)
        with prems obtain bs' r2 w2 where
          rt: "recordplay_try en fuel dur sr bs' ch w1 = Some (r2, w2)" and
          fin: "recordplay_finally r2 w2 = (r, w')"
          by (auto split: option.splits)
        show ?thesis
          using recordplay_try_result [OF rt] recordplay_finally_result [OF fin] w1 by auto
      qed
    qed
  qed
qed

text \<open>
  C6, as claimed: every exit of \<^verbatim>\<open>play\<close>, also a raised error, leaves the playback state
  stopped. The check of the arguments raises before anything else: called with neither a
  file nor sounds while a session is playing, \<^verbatim>\<open>play\<close> raises and the state is still
  \<open>PLAYING\<close>.
\<close>

theorem early_error_leaves_state_counterexample:
  "playback_state (start_playback plugin0) = PLAYING
   \<and> play quiet_env 1 None None None None 20 None None (start_playback plugin0)
       = Some (Inl RuntimeError, start_playback plugin0)"
  by (simp add: play_def start_playback_def)

text \<open>
  C6, as amended: every exit of \<^verbatim>\<open>play\<close> that got past the check of the arguments and
  the choice of the device, and every exit of \<^verbatim>\<open>record\<close> and of \<^verbatim>\<open>recordplay\<close>, whether
  they return or raise, leaves the state machines of the call stopped, and the sound file
  and the stream that the call opened closed. \<^verbatim>\<open>play\<close> has two exits before its \<^verbatim>\<open>try\<close>
  block. The error of the check of the arguments leaves the plugin as it was. A failing
  lookup of the default device comes after lines 311 to 315: the playback state is then
  stopped when a file was given, and as it was when only sounds were given; the event
  \<^verbatim>\<open>playback_paused_changed\<close> is cleared, and nothing was opened.
\<close>

theorem sessions_end_stopped:
  "(enters_try en f sounds dev w
      \<and> play en fuel f sounds dev bs bufsize sr ch w = Some (r, w')
    \<longrightarrow> playback_state w' = STOPPED \<and> open_files w' = open_files w
        \<and> open_streams w' = open_streams w)
   \<and> (record_sound en fuel f dur dev rate bs rch w = Some (r, w')
      \<longrightarrow> recording_state w' = REC_STOPPED \<and> open_files w' = open_files w
          \<and> open_streams w' = open_streams w)
   \<and> (recordplay en fuel dur idev odev rate bs rch w = Some (r, w')
      \<longrightarrow> playback_state w' = STOPPED \<and> recording_state w' = REC_STOPPED
          \<and> open_streams w' = open_streams w)
   \<and> (\<not> truthy_str f \<and> \<not> truthy_sounds sounds
      \<longrightarrow> play en fuel f sounds dev bs bufsize sr ch w = Some (Inl RuntimeError, w))
   \<and> ((truthy_str f \<or> truthy_sounds sounds)
       \<and> resolve_device en ''output'' dev (output_device w) = Inl e
      \<longrightarrow> play en fuel f sounds dev bs bufsize sr ch w =
            Some (Inl e, (play_prelude f w)\<lparr> playback_paused_changed := False \<rparr>)
          \<and> playback_state (play_prelude f w) =
              (if truthy_str f then STOPPED else playback_state w)
          \<and> open_files (play_prelude f w) = open_files w
          \<and> open_streams (play_prelude f w) = open_streams w)"
proof (intro conjI impI)
  assume a: "enters_try en f sounds dev w
      \<and> play en fuel f sounds dev bs bufsize sr ch w = Some (r, w')"
  then obtain d where d: "resolve_device en ''output'' dev (output_device w) = Inr d"
    by (auto simp: enters_try_def split: sum.splits)
  from a have pc: "play_checked en fuel f sounds dev bs bufsize sr ch w = Some (r, w')"
    by (auto simp: enters_try_def play_def)
  show "playback_state w' = STOPPED" using play_checked_stopped [OF pc d] .
  show "open_files w' = open_files w" using play_checked_frame [OF pc] by simp
  show "open_streams w' = open_streams w" using play_checked_frame [OF pc] by simp
next
  assume a: "record_sound en fuel f dur dev rate bs rch w = Some (r, w')"
  show "recording_state w' = REC_STOPPED" using record_sound_result [OF a] by simp
  show "open_files w' = open_files w" using record_sound_result [OF a] by simp
  show "open_streams w' = open_streams w" using record_sound_result [OF a] by simp
next
  assume a: "recordplay en fuel dur idev odev rate bs rch w = Some (r, w')"
  show "playback_state w' = STOPPED" using recordplay_result [OF a] by simp
  show "recording_state w' = REC_STOPPED" using recordplay_result [OF a] by simp
  show "open_streams w' = open_streams w" using recordplay_result [OF a] by simp
next
  assume "\<not> truthy_str f \<and> \<not> truthy_sounds sounds"
  then show "play en fuel f sounds dev bs bufsize sr ch w = Some (Inl RuntimeError, w)"
    by (simp add: play_def)
next
  assume a: "(truthy_str f \<or> truthy_sounds sounds)
       \<and> resolve_device en ''output'' dev (output_device w) = Inl e"
  define w2 where "w2 = (play_prelude f w)\<lparr> playback_paused_changed := False \<rparr>"
  have "output_device w2 = output_device w"
    using play_prelude_frame [of f w] by (simp add: w2_def)
  with a have d: "resolve_device en ''output'' dev (output_device w2) = Inl e" by simp
  have "play_checked en fuel f sounds dev bs bufsize sr ch w = Some (Inl e, w2)"
    unfolding play_checked_def Let_def w2_def [symmetric] d by simp
  with a show "play en fuel f sounds dev bs bufsize sr ch w =
      Some (Inl e, (play_prelude f w)\<lparr> playback_paused_changed := False \<rparr>)"
    by (auto simp: play_def w2_def)
  show "playback_state (play_prelude f w) = (if truthy_str f then STOPPED else playback_state w)"
    by (simp add: play_prelude_def state_ops)
  show "open_files (play_prelude f w) = open_files w"
    using play_prelude_frame [of f w] by simp
  show "open_streams (play_prelude f w) = open_streams w"
    using play_prelude_frame [of f w] by simp
qed

lemma prefill_unfold:
  "prefill en fuel k sounds bs sr ms f t q w =
     (if k = 0 then Some (Inr (f, t, q), w)
      else
        (case next_block f sounds bs sr t w of
           (Inl e, w1) \<Rightarrow> Some (Inl e, w1)
         | (Inr (None, f', t'), w1) \<Rightarrow> Some (Inr (f', t', q), w1)
         | (Inr (Some data, f', t'), w1) \<Rightarrow>
             (case wait_while_playback_paused en fuel w1 of
                None \<Rightarrow> None
              | Some w2 \<Rightarrow>
                  (let w3 = observe en w2
                   in if playback_state w3 = STOPPED then Some (Inl CallbackAbort, w3)
                      else if full ms q then Some (Inl QueueFull, w3)
                      else prefill en fuel (k - 1) sounds bs sr ms f' t'
                             (q @ [data]) (emit (Enqueued data) w3)))))"
proof (cases k)
  case 0
  then show ?thesis by simp
next
  case (Suc n)
  show ?thesis unfolding Suc diff_Suc_1 by simp
qed

lemmas eval_defs =
  play_def play_checked_def play_prelude_def resolve_device_def resolve_samplerate_def
  play_try_def play_session_def play_finally_def convert_sounds_def next_block_def
  buffer_read_def full_def observe_def time_now_def time_left_def quiet_env_def
  recording_env_def plugin0_def plugin_with_file_def SoundPlugin_init_def state_ops
  record_sound_def record_prelude_def remove_existing_def record_try_def record_finally_def
  recordplay_def recordplay_prelude_def recordplay_try_def recordplay_finally_def
  isfile_def unlink_def SoundFile_create_def SoundFile_write_def SoundFile_close_def
  stream_close_def DEFAULT_BLOCKSIZE_def DEFAULT_BUFSIZE_def DEFAULT_SAMPLERATE_def
  py_int_def Let_def

lemma play_file_run:
  "play quiet_env 1 (Some ''a.wav'') None None None 20 None None plugin0 =
     Some (Inr (), plugin0\<lparr> events := [Info ''Started playback'', Info ''Playback stopped''],
                             clock := 1 \<rparr>)"
  by (simp add: eval_defs prefill_unfold)

lemma record_run:
  "record_sound recording_env 2 (Some ''out.wav'') None None None None 1 plugin_with_file =
     Some (Inr (), plugin_with_file\<lparr>
        events := [Info ''Removing existing audio file'', Unlinked ''out.wav'',
                   Info ''Started recording'', Written ''out.wav'' [1 / 2],
                   Info ''Recording stopped'', Flushed ''out.wav'', Info ''Recording stopped''],
        filesystem := [''out.wav'' \<mapsto> RegularFile [1 / 2]],
        clock := 4 \<rparr>)"
  by (simp add: eval_defs numeral_2_eq_2)

lemma recordplay_run:
  "recordplay recording_env 2 None None None None None 1 plugin0 =
     Some (Inr (), plugin0\<lparr>
        events := [Info ''Started recording pass-through'', Slept (1 / 10),
                   Info ''Recording stopped'', Info ''Playback stopped'',
                   Info ''Recording stopped''],
        clock := 4 \<rparr>)"
  by (simp add: eval_defs numeral_2_eq_2)

theorem sessions_end_stopped_witness:
  "(enters_try quiet_env (Some ''a.wav'') None None plugin0
    \<and> play quiet_env 1 (Some ''a.wav'') None None None 20 None None plugin0 =
        Some (Inr (), plugin0\<lparr> events := [Info ''Started playback'', Info ''Playback stopped''],
                                clock := 1 \<rparr>))
   \<and> playback_state (plugin0\<lparr> events := [Info ''Started playback'', Info ''Playback stopped''],
                                clock := 1 \<rparr>) = STOPPED
   \<and> (\<exists>w'. record_sound recording_env 2 (Some ''out.wav'') None None None None 1
               plugin_with_file = Some (Inr (), w')
            \<and> recording_state w' = REC_STOPPED \<and> open_files w' = [] \<and> open_streams w' = 0)
   \<and> (\<exists>w'. recordplay recording_env 2 None None None None None 1 plugin0 = Some (Inr (), w')
            \<and> playback_state w' = STOPPED \<and> recording_state w' = REC_STOPPED
            \<and> open_streams w' = 0)
   \<and> playback_state (start_playback plugin0) = PLAYING
   \<and> play quiet_env 1 None None None None 20 None None (start_playback plugin0) =
        Some (Inl RuntimeError, start_playback plugin0)
   \<and> resolve_device no_device_env ''output'' None (output_device (start_playback plugin0)) =
        Inl PortAudioError
   \<and> (\<exists>w'. play no_device_env 1 (Some ''a.wav'') None None None 20 None None
               (start_playback plugin0) = Some (Inl PortAudioError, w')
            \<and> playback_state w' = STOPPED)
   \<and> (\<exists>w'. play no_device_env 1 None (Some (SoundList [SoundObject A4])) None None 20 None None
               (start_playback plugin0) = Some (Inl PortAudioError, w')
            \<and> playback_state w' = PLAYING)"
proof -
  let ?w = "start_playback plugin0"
  have e: "enters_try quiet_env (Some ''a.wav'') None None plugin0"
    by (simp add: enters_try_def resolve_device_def quiet_env_def plugin0_def
        SoundPlugin_init_def)
  note p = play_file_run
  note a = sessions_end_stopped [where en = quiet_env and f = "Some ''a.wav''"
      and sounds = None and dev = None and w = plugin0 and fuel = 1 and bs = None
      and bufsize = 20 and sr = None and ch = None, THEN conjunct1, rule_format, OF conjI,
      OF e p]
  note b = sessions_end_stopped [where en = recording_env and f = "Some ''out.wav''"
      and dur = None and dev = None and rate = None and bs = None and rch = 1
      and w = plugin_with_file and fuel = 2, THEN conjunct2, THEN conjunct1, rule_format,
      OF record_run]
  note c = sessions_end_stopped [where en = recording_env and dur = None and idev = None
      and odev = None and rate = None and bs = None and rch = 1 and w = plugin0
      and fuel = 2, THEN conjunct2, THEN conjunct2, THEN conjunct1, rule_format,
      OF recordplay_run]
  note d = sessions_end_stopped [where en = quiet_env and f = None and sounds = None
      and dev = None and w = ?w and fuel = 1 and bs = None and bufsize = 20 and sr = None
      and ch = None, THEN conjunct2, THEN conjunct2, THEN conjunct2, THEN conjunct1,
      rule_format]
  have n: "resolve_device no_device_env ''output'' None (output_device ?w) = Inl PortAudioError"
    by (simp add: resolve_device_def no_device_env_def quiet_env_def plugin0_def
        SoundPlugin_init_def start_playback_def emit_def)
  note g = sessions_end_stopped [where en = no_device_env and f = "Some ''a.wav''"
      and sounds = None and dev = None and w = ?w and fuel = 1 and bs = None and bufsize = 20
      and sr = None and ch = None and e = PortAudioError, THEN conjunct2, THEN conjunct2,
      THEN conjunct2, THEN conjunct2, rule_format, OF conjI, OF _ n]
  note h = sessions_end_stopped [where en = no_device_env and f = None
      and sounds = "Some (SoundList [SoundObject A4])" and dev = None and w = ?w and fuel = 1
      and bs = None and bufsize = 20 and sr = None and ch = None and e = PortAudioError,
      THEN conjunct2, THEN conjunct2, THEN conjunct2, THEN conjunct2, rule_format, OF conjI,
      OF _ n]
  have s: "playback_state ?w = PLAYING" by (simp add: start_playback_def emit_def)
  have z: "open_files plugin_with_file = []" "open_streams plugin_with_file = 0"
    "open_streams plugin0 = 0"
    by (simp_all add: plugin_with_file_def plugin0_def SoundPlugin_init_def)
  show ?thesis
    using e p a b c d g h n s z record_run recordplay_run by simp
qed

section \<open>The file of a recording\<close>




section \<open>The start of a playback session\<close>










lemma next_block_file:
  "f \<noteq> None \<Longrightarrow> next_block f sounds bs sr t w = next_block f [] bs sr t w"
  by (cases f) (simp_all add: next_block_def)

lemma next_block_file_keeps:
  "f \<noteq> None \<Longrightarrow> next_block f sounds bs sr t w = (Inr (d, f', t'), w1) \<Longrightarrow> f' \<noteq> None"
  by (cases f) (auto simp: next_block_def Let_def split: prod.splits)

lemma prefill_file:
  "f \<noteq> None \<Longrightarrow>
   prefill en fuel k sounds bs sr ms f t q w = prefill en fuel k [] bs sr ms f t q w"
proof (induction k arbitrary: f t q w)
  case 0
  show ?case by simp
next
  case (Suc k)
  obtain nb w1 where nb: "next_block f [] bs sr t w = (nb, w1)" by fastforce
  then have nb': "next_block f sounds bs sr t w = (nb, w1)"
    using next_block_file [OF Suc.prems, of sounds bs sr t w] by simp
  show ?case
  proof (cases nb)
    case (Inl e)
    then show ?thesis by (simp add: nb nb')
  next
    case (Inr x)
    obtain d f' t' where x: "x = (d, f', t')" by (cases x)
    have f': "f' \<noteq> None" using next_block_file_keeps [OF Suc.prems] nb Inr x by blast
    show ?thesis
      by (simp add: nb nb' Inr x Suc.IH [OF f'] Let_def split: option.splits cong: if_cong)
  qed
qed

lemma prefill_file_keeps:
  "f \<noteq> None \<Longrightarrow> prefill en fuel k sounds bs sr ms f t q w = Some (Inr (f', t', q'), w')
   \<Longrightarrow> f' \<noteq> None"
proof (induction k arbitrary: f t q w)
  case 0
  then show ?case by simp
next
  case (Suc k)
  obtain nb w1 where nb: "next_block f sounds bs sr t w = (nb, w1)" by fastforce
  show ?case
  proof (cases nb)
    case (Inl e)
    with Suc.prems nb show ?thesis by simp
  next
    case (Inr x)
    obtain d f1 t1 where x: "x = (d, f1, t1)" by (cases x)
    have f1: "f1 \<noteq> None" using next_block_file_keeps [OF Suc.prems(1)] nb Inr x by blast
    show ?thesis
    proof (cases d)
      case None
      with Suc.prems nb Inr x f1 show ?thesis by simp
    next
      case (Some data)
      with Suc.prems(2) nb Inr x show ?thesis
        using Suc.IH [OF f1]
        by (auto simp: Let_def split: option.splits if_splits)
    qed
  qed
qed

lemma producer_file:
  "f \<noteq> None \<Longrightarrow>
   producer en n sounds bs sr ms f t q w = producer en n [] bs sr ms f t q w"
proof (induction n arbitrary: f t q w)
  case 0
  show ?case by simp
next
  case (Suc n)
  show ?case
  proof (cases "wait_while_playback_paused en (Suc n) w")
    case None
    then show ?thesis by (simp del: wait_while_playback_paused.simps)
  next
    case (Some w1)
    obtain nb w2 where nb: "next_block f [] bs sr t w1 = (nb, w2)" by fastforce
    then have nb': "next_block f sounds bs sr t w1 = (nb, w2)"
      using next_block_file [OF Suc.prems, of sounds bs sr t w1] by simp
    show ?thesis
    proof (cases nb)
      case (Inl e)
      then show ?thesis by (simp add: Some nb nb' del: wait_while_playback_paused.simps)
    next
      case (Inr x)
      obtain d f' t' where x: "x = (d, f', t')" by (cases x)
      have f': "f' \<noteq> None" using next_block_file_keeps [OF Suc.prems] nb Inr x by blast
      show ?thesis
        by (simp add: Some nb nb' Inr x Suc.IH [OF f'] Let_def split: option.splits
            cong: if_cong del: wait_while_playback_paused.simps)
    qed
  qed
qed

lemma play_session_file:
  assumes "convert_sounds en sounds = Inr snds"
  shows "play_session en fuel f (Some h) sounds bs bufsize sr ch w
         = play_session en fuel f (Some h) None bs bufsize sr ch w"
proof -
  define sr' where "sr' = (if truthy_int sr then the sr else sf_samplerate h)"
  define w1 where "w1 = emit (Info ''Started playback'') (start_playback w)"
  define P where "P = prefill en fuel (nat bufsize) [] bs sr' bufsize (Some h) 0 [] w1"
  have n: "convert_sounds en None = Inr []" by (simp add: convert_sounds_def)
  have p: "prefill en fuel (nat bufsize) snds bs sr' bufsize (Some h) 0 [] w1 = P"
    unfolding P_def by (rule prefill_file) simp
  have l: "play_session en fuel f (Some h) sounds bs bufsize sr ch w =
     (case P of
        None \<Rightarrow> None
      | Some (Inl e, w2) \<Rightarrow> Some (Inl e, w2)
      | Some (Inr (f', t', q'), w2) \<Rightarrow>
          (case open_stream en (if truthy_str f then RawOutputStream else OutputStream)
                  sr' bs (if truthy_int ch then the ch else sf_channels h) of
             Some e \<Rightarrow> Some (Inl e, w2)
           | None \<Rightarrow>
               (case producer en fuel snds bs sr' bufsize f' t' q'
                       (w2\<lparr> open_streams := Suc (open_streams w2) \<rparr>) of
                  None \<Rightarrow> None
                | Some (Inl e, w4) \<Rightarrow>
                    Some (Inl e, w4\<lparr> open_streams := open_streams w4 - 1 \<rparr>)
                | Some (Inr _, w4) \<Rightarrow>
                    if stream_finishes en
                    then Some (Inr (), w4\<lparr> open_streams := open_streams w4 - 1 \<rparr>)
                    else None)))"
    unfolding play_session_def Let_def assms sum.case option.case
    by (simp only: sr'_def [symmetric] w1_def [symmetric] p)
  have r: "play_session en fuel f (Some h) None bs bufsize sr ch w =
     (case P of
        None \<Rightarrow> None
      | Some (Inl e, w2) \<Rightarrow> Some (Inl e, w2)
      | Some (Inr (f', t', q'), w2) \<Rightarrow>
          (case open_stream en (if truthy_str f then RawOutputStream else OutputStream)
                  sr' bs (if truthy_int ch then the ch else sf_channels h) of
             Some e \<Rightarrow> Some (Inl e, w2)
           | None \<Rightarrow>
               (case producer en fuel [] bs sr' bufsize f' t' q'
                       (w2\<lparr> open_streams := Suc (open_streams w2) \<rparr>) of
                  None \<Rightarrow> None
                | Some (Inl e, w4) \<Rightarrow>
                    Some (Inl e, w4\<lparr> open_streams := open_streams w4 - 1 \<rparr>)
                | Some (Inr _, w4) \<Rightarrow>
                    if stream_finishes en
                    then Some (Inr (), w4\<lparr> open_streams := open_streams w4 - 1 \<rparr>)
                    else None)))"
    unfolding play_session_def Let_def n sum.case option.case
    by (simp only: sr'_def [symmetric] w1_def [symmetric] P_def [symmetric])
  show ?thesis
  proof (cases P)
    case None
    then show ?thesis by (simp add: l r)
  next
    case (Some x)
    obtain r2 w2 where x: "x = (r2, w2)" by (cases x)
    show ?thesis
    proof (cases r2)
      case (Inl e)
      then show ?thesis by (simp add: l r Some x)
    next
      case (Inr y)
      obtain f' t' q' where y: "y = (f', t', q')" by (cases y)
      have "f' \<noteq> None"
        using prefill_file_keeps [of "Some h" en fuel "nat bufsize" "[]" bs sr' bufsize 0 "[]" w1
            f' t' q' w2] Some x Inr y by (simp add: P_def)
      then have pe: "producer en fuel snds bs sr' bufsize f' t' q' v
                 = producer en fuel [] bs sr' bufsize f' t' q' v" for v
        by (rule producer_file)
      show ?thesis
        by (simp add: l r Some x Inr y pe cong: if_cong option.case_cong)
    qed
  qed
qed

text \<open>
  C5, as amended: \<^verbatim>\<open>play\<close> raises at once, without any effect, when it is given neither
  a file nor sounds. Given both, it does not raise on that account: when the sounds are
  well formed it does what it does for the file alone (the absolute path of a file name
  is not empty).
\<close>

theorem play_argument_check:
  "(\<not> truthy_str f \<and> \<not> truthy_sounds sounds
    \<longrightarrow> play en fuel f sounds dev bs bufsize sr ch w = Some (Inl RuntimeError, w))
   \<and> (truthy_str f \<and> abspath en (the f) \<noteq> [] \<and> convert_sounds en sounds = Inr snds
      \<longrightarrow> play en fuel f sounds dev bs bufsize sr ch w
          = play en fuel f None dev bs bufsize sr ch w)"
proof (intro conjI impI)
  assume "\<not> truthy_str f \<and> \<not> truthy_sounds sounds"
  then show "play en fuel f sounds dev bs bufsize sr ch w = Some (Inl RuntimeError, w)"
    by (simp add: play_def)
next
  assume a: "truthy_str f \<and> abspath en (the f) \<noteq> [] \<and> convert_sounds en sounds = Inr snds"
  then have pt: "play_try en fuel (Some (abspath en (the f))) sounds b bufsize sr ch v
      = play_try en fuel (Some (abspath en (the f))) None b bufsize sr ch v" for b v
    using play_session_file [of en sounds snds]
    by (simp add: play_try_def split: sum.splits)
  have "play_checked en fuel f sounds dev bs bufsize sr ch w
          = play_checked en fuel f None dev bs bufsize sr ch w"
    using a by (simp add: play_checked_def Let_def pt cong: sum.case_cong)
  with a show "play en fuel f sounds dev bs bufsize sr ch w
          = play en fuel f None dev bs bufsize sr ch w"
    by (simp add: play_def)
qed

lemma play_file_and_sounds_run:
  "play quiet_env 1 (Some ''a.wav'') (Some (SoundList [SoundObject A4])) None None 20 None
     None plugin0 =
   Some (Inr (), plugin0\<lparr> events := [Info ''Started playback'', Info ''Playback stopped''],
                           clock := 1 \<rparr>)"
  by (simp add: eval_defs prefill_unfold)

text \<open>
  C5, as claimed: \<^verbatim>\<open>play\<close> also fails when both a file and sounds are given. Given
  both, it plays the file and returns.
\<close>

theorem play_accepts_file_and_sounds:
  "truthy_str (Some ''a.wav'') \<and> truthy_sounds (Some (SoundList [SoundObject A4]))
   \<and> map_option fst
        (play quiet_env 1 (Some ''a.wav'') (Some (SoundList [SoundObject A4])) None None 20
           None None plugin0) = Some (Inr ())"
  using play_file_and_sounds_run by simp

theorem play_argument_check_witness:
  "(\<not> truthy_str None \<and> \<not> truthy_sounds None
    \<and> play quiet_env 1 None None None None 20 None None plugin0
        = Some (Inl RuntimeError, plugin0))
   \<and> (truthy_str (Some ''a.wav'') \<and> abspath quiet_env (the (Some ''a.wav'')) \<noteq> []
      \<and> convert_sounds quiet_env (Some (SoundList [SoundObject A4])) = Inr [A4]
      \<and> play quiet_env 1 (Some ''a.wav'') (Some (SoundList [SoundObject A4])) None None 20
           None None plugin0
         = play quiet_env 1 (Some ''a.wav'') None None None 20 None None plugin0)"
proof -
  have a: "\<not> truthy_str None \<and> \<not> truthy_sounds None" by simp
  have b: "truthy_str (Some ''a.wav'') \<and> abspath quiet_env (the (Some ''a.wav'')) \<noteq> []
      \<and> convert_sounds quiet_env (Some (SoundList [SoundObject A4])) = Inr [A4]"
    by (simp add: quiet_env_def convert_sounds_def)
  note t1 = play_argument_check [THEN conjunct1, rule_format, OF a]
  note t2 = play_argument_check [THEN conjunct2, rule_format, OF b]
  show ?thesis using a b t1 t2 by simp
qed

section \<open>The samples of a synthesized second\<close>

lemmas fl_binades =
  fl_eval [of _ 55] fl_eval [of _ 54] fl_eval [of _ 53] fl_eval [of _ 52] fl_eval [of _ 42]

lemma get_wave_result:
  assumes "py_int (fl (fl (b - a) * real_of_int sr)) = int n"
  shows "\<exists>d. get_wave s a b sr = Inr d \<and> length d = n"
  using assms by (simp add: get_wave_def linspace_def)

lemma duration_A4: "duration A4 = Some 1"
  by (simp add: A4_def)

lemma play_1600_run:
  "map_option (\<lambda>(r, w'). (r, enqueued_samples (events w'), synth_ends (events w')))
     (play quiet_env 1 None (Some (SoundList [SoundObject A4])) None (Some 1600) 20 (Some 8000)
        None plugin0)
   = Some (Inr (), 6399,
           [3602879701896397 / 18014398509481984, 3602879701896397 / 9007199254740992,
            1351079888211149 / 2251799813685248, 3602879701896397 / 4503599627370496, 1, 1])"
proof -
  obtain d1 where g1: "get_wave A4 0 (3602879701896397 / 18014398509481984) 8000 = Inr d1"
    and l1: "length d1 = 1600"
    using get_wave_result [of "3602879701896397 / 18014398509481984" 0 8000 1600 A4]
    by (auto simp: fl_binades round_even_def py_int_def)
  obtain d2 where g2: "get_wave A4 (3602879701896397 / 18014398509481984)
       (3602879701896397 / 9007199254740992) 8000 = Inr d2"
    and l2: "length d2 = 1600"
    using get_wave_result [of "3602879701896397 / 9007199254740992"
        "3602879701896397 / 18014398509481984" 8000 1600 A4]
    by (auto simp: fl_binades round_even_def py_int_def)
  obtain d3 where g3: "get_wave A4 (3602879701896397 / 9007199254740992)
       (1351079888211149 / 2251799813685248) 8000 = Inr d3"
    and l3: "length d3 = 1600"
    using get_wave_result [of "1351079888211149 / 2251799813685248"
        "3602879701896397 / 9007199254740992" 8000 1600 A4]
    by (auto simp: fl_binades round_even_def py_int_def)
  obtain d4 where g4: "get_wave A4 (1351079888211149 / 2251799813685248)
       (3602879701896397 / 4503599627370496) 8000 = Inr d4"
    and l4: "length d4 = 1599"
    using get_wave_result [of "3602879701896397 / 4503599627370496"
        "1351079888211149 / 2251799813685248" 8000 1599 A4]
    by (auto simp: fl_binades round_even_def py_int_def)
  obtain d5 where g5: "get_wave A4 (3602879701896397 / 4503599627370496) 1 8000 = Inr d5"
    using get_wave_result [of 1 "3602879701896397 / 4503599627370496" 8000 1599 A4]
    by (auto simp: fl_binades round_even_def py_int_def)
  obtain d6 where g6: "get_wave A4 1 1 8000 = Inr d6"
    using get_wave_result [of 1 1 8000 0 A4] by (auto simp: py_int_def)
  show ?thesis
    by (simp add: eval_defs prefill_unfold duration_A4 g1 g2 g3 g4 g5 g6 l1 l2 l3 l4
        fl_binades round_even_def)
qed

text \<open>
  C8. For one sound of one second at 8000 samples per second the samples put on the
  queue are claimed to be 8000 to within one block. With blocks of 1600 samples the
  cursor runs through 0.2, 0.4, 0.6000000000000001, 0.8 and 1.0; the fourth block has
  \<^verbatim>\<open>int(1599.9999999999995)\<close> = 1599 samples and the fifth is synthesized and dropped, so
  6399 samples are enqueued, 1601 short of 8000. No call of \<^verbatim>\<open>get_wave\<close> in the run ends
  after the duration.
\<close>

theorem play_block_1600_loses_a_sample:
  "map_option (\<lambda>(r, w'). (r, enqueued_samples (events w')))
     (play quiet_env 1 None (Some (SoundList [SoundObject A4])) None (Some 1600) 20 (Some 8000)
        None plugin0)
   = Some (Inr (), 6399)
   \<and> \<not> \<bar>8000 - int 6399\<bar> \<le> 1600"
  using play_1600_run by auto

text \<open>With the default block size of 2048 samples the same session enqueues 6144 samples.\<close>

lemma play_2048_run:
  "map_option (\<lambda>(r, w'). (r, enqueued_samples (events w'), synth_ends (events w')))
     (play quiet_env 1 None (Some (SoundList [SoundObject A4])) None None 20 (Some 8000)
        None plugin0)
   = Some (Inr (), 6144,
           [1152921504606847 / 4503599627370496, 1152921504606847 / 2251799813685248,
            3458764513820541 / 4503599627370496, 1, 1])"
proof -
  note fls = fl_binades fl_eval [of _ 41] round_even_def py_int_def
  obtain d1 where g1: "get_wave A4 0 (1152921504606847 / 4503599627370496) 8000 = Inr d1"
    and l1: "length d1 = 2048"
    using get_wave_result [of "1152921504606847 / 4503599627370496" 0 8000 2048 A4]
    by (auto simp: fls)
  obtain d2 where g2: "get_wave A4 (1152921504606847 / 4503599627370496)
       (1152921504606847 / 2251799813685248) 8000 = Inr d2"
    and l2: "length d2 = 2048"
    using get_wave_result [of "1152921504606847 / 2251799813685248"
        "1152921504606847 / 4503599627370496" 8000 2048 A4]
    by (auto simp: fls)
  obtain d3 where g3: "get_wave A4 (1152921504606847 / 2251799813685248)
       (3458764513820541 / 4503599627370496) 8000 = Inr d3"
    and l3: "length d3 = 2048"
    using get_wave_result [of "3458764513820541 / 4503599627370496"
        "1152921504606847 / 2251799813685248" 8000 2048 A4]
    by (auto simp: fls)
  obtain d4 where g4: "get_wave A4 (3458764513820541 / 4503599627370496) 1 8000 = Inr d4"
    using get_wave_result [of 1 "3458764513820541 / 4503599627370496" 8000 1855 A4]
    by (auto simp: fls)
  obtain d5 where g5: "get_wave A4 1 1 8000 = Inr d5"
    using get_wave_result [of 1 1 8000 0 A4] by (auto simp: py_int_def)
  show ?thesis
    by (simp add: eval_defs prefill_unfold duration_A4 g1 g2 g3 g4 g5 l1 l2 l3
        fl_binades round_even_def)
qed

end
